theory Spec2Isabelle
  imports Complex_Main "HOL-Library.Log_Nat"
begin

section \<open>JavaScript numbers\<close>

text \<open>
  Every price, return and statistic of \<^verbatim>\<open>WWDCMomentumDashboard.tsx\<close> is a JavaScript
  \<^verbatim>\<open>number\<close>, an IEEE 754 binary64 value: NaN, the two infinities, the two zeros, or a
  finite non-zero number. \<open>Fin x\<close> is the number of real value \<open>x\<close>, \<open>Fin 0\<close> is \<^verbatim>\<open>+0\<close>
  and \<open>NZero\<close> is \<^verbatim>\<open>-0\<close>. Every arithmetic operation returns the exact result rounded to
  the nearest binary64 value, ties to the even significand, as IEEE 754 prescribes.
\<close>

datatype jsnum = Fin real | NZero | PInf | NInf | NaN

fun is_finite :: "jsnum \<Rightarrow> bool" where
  "is_finite (Fin a) = True"
| "is_finite NZero = True"
| "is_finite PInf = False"
| "is_finite NInf = False"
| "is_finite NaN = False"

text \<open>The sign bit, and the tests for a zero and for an infinity.\<close>

fun negative :: "jsnum \<Rightarrow> bool" where
  "negative (Fin a) = (a < 0)"
| "negative NZero = True"
| "negative PInf = False"
| "negative NInf = True"
| "negative NaN = False"

fun is_zero :: "jsnum \<Rightarrow> bool" where
  "is_zero (Fin a) = (a = 0)"
| "is_zero NZero = True"
| "is_zero PInf = False"
| "is_zero NInf = False"
| "is_zero NaN = False"

fun is_inf :: "jsnum \<Rightarrow> bool" where
  "is_inf (Fin a) = False"
| "is_inf NZero = False"
| "is_inf PInf = True"
| "is_inf NInf = True"
| "is_inf NaN = False"

definition zero_of :: "bool \<Rightarrow> jsnum" where
  "zero_of neg = (if neg then NZero else Fin 0)"

definition inf_of :: "bool \<Rightarrow> jsnum" where
  "inf_of neg = (if neg then NInf else PInf)"

text \<open>The real value of a finite number.\<close>

fun value_of :: "jsnum \<Rightarrow> real" where
  "value_of (Fin a) = a"
| "value_of NZero = 0"
| "value_of PInf = 0"
| "value_of NInf = 0"
| "value_of NaN = 0"

subsection \<open>Rounding to binary64\<close>

text \<open>\<open>ilog2 a\<close> is the integer \<open>k\<close> with \<open>2^k \<le> a < 2^(k+1)\<close>, for a positive \<open>a\<close>.\<close>

definition ilog2 :: "real \<Rightarrow> int" where
  "ilog2 a = (if 1 \<le> a then bitlen \<lfloor>a\<rfloor> - 1 else - bitlen (\<lceil>1 / a\<rceil> - 1))"

text \<open>The nearest integer, the even one of two that are equally near.\<close>

definition rne :: "real \<Rightarrow> int" where
  "rne x = (let f = \<lfloor>x\<rfloor>; d = x - of_int f
            in if d < 1 / 2 then f else if 1 / 2 < d then f + 1
               else if even f then f else f + 1)"

text \<open>
  The binary64 value nearest to a real number. The significand has 53 bits, so a number
  of magnitude in \<open>[2^k, 2^(k+1))\<close> is rounded to a multiple of \<open>2^(k-52)\<close>; below
  \<open>2^-1022\<close> the numbers are subnormal, multiples of \<open>2^-1074\<close>. What rounds to
  \<open>2^1024\<close> or beyond is an infinity, what rounds to zero keeps its sign.
\<close>

definition round64 :: "real \<Rightarrow> jsnum" where
  "round64 x =
     (if x = 0 then Fin 0
      else (let e = max (ilog2 \<bar>x\<bar> - 52) (- 1074);
                y = of_int (rne (\<bar>x\<bar> / 2 powi e)) * 2 powi e
            in if 2 ^ 1024 \<le> y then inf_of (x < 0)
               else if y = 0 then zero_of (x < 0)
               else Fin (if x < 0 then - y else y)))"

subsection \<open>The operations\<close>

text \<open>\<^verbatim>\<open>-x\<close>\<close>

fun js_neg :: "jsnum \<Rightarrow> jsnum" where
  "js_neg (Fin a) = (if a = 0 then NZero else Fin (- a))"
| "js_neg NZero = Fin 0"
| "js_neg PInf = NInf"
| "js_neg NInf = PInf"
| "js_neg NaN = NaN"

text \<open>\<^verbatim>\<open>x + y\<close>: the sum of two zeros is \<^verbatim>\<open>-0\<close> only when both are, and an exact sum of
  zero is \<^verbatim>\<open>+0\<close>.\<close>

fun js_add :: "jsnum \<Rightarrow> jsnum \<Rightarrow> jsnum" where
  "js_add NaN _ = NaN"
| "js_add _ NaN = NaN"
| "js_add PInf NInf = NaN"
| "js_add NInf PInf = NaN"
| "js_add PInf _ = PInf"
| "js_add _ PInf = PInf"
| "js_add NInf _ = NInf"
| "js_add _ NInf = NInf"
| "js_add NZero y = y"
| "js_add x NZero = x"
| "js_add (Fin a) (Fin b) = round64 (a + b)"

text \<open>\<^verbatim>\<open>x - y\<close>\<close>

definition js_sub :: "jsnum \<Rightarrow> jsnum \<Rightarrow> jsnum" where
  "js_sub x y = js_add x (js_neg y)"

text \<open>\<^verbatim>\<open>x * y\<close>: the sign is the product of the signs; infinity times zero is NaN.\<close>

fun js_mul :: "jsnum \<Rightarrow> jsnum \<Rightarrow> jsnum" where
  "js_mul NaN _ = NaN"
| "js_mul _ NaN = NaN"
| "js_mul (Fin a) (Fin b) =
     (if a = 0 \<or> b = 0 then zero_of ((a < 0) \<noteq> (b < 0)) else round64 (a * b))"
| "js_mul x y =
     (if is_inf x \<or> is_inf y
      then (if is_zero x \<or> is_zero y then NaN else inf_of (negative x \<noteq> negative y))
      else zero_of (negative x \<noteq> negative y))"

text \<open>
  \<^verbatim>\<open>x / y\<close>: the sign is the quotient of the signs; a non-zero number divided by a zero
  is an infinity, zero divided by zero and infinity divided by infinity are NaN, a finite
  number divided by an infinity is a zero.
\<close>

fun js_div :: "jsnum \<Rightarrow> jsnum \<Rightarrow> jsnum" where
  "js_div NaN _ = NaN"
| "js_div _ NaN = NaN"
| "js_div (Fin a) (Fin b) =
     (if b = 0 then (if a = 0 then NaN else inf_of (a < 0))
      else if a = 0 then zero_of (b < 0)
      else round64 (a / b))"
| "js_div x y =
     (if is_inf x then (if is_inf y then NaN else inf_of (negative x \<noteq> negative y))
      else if is_inf y then zero_of (negative x \<noteq> negative y)
      else if is_zero y then (if is_zero x then NaN else inf_of (negative x \<noteq> negative y))
      else zero_of (negative x \<noteq> negative y))"

text \<open>
  \<^verbatim>\<open>Math.pow(x, n)\<close> for a natural exponent; \<^verbatim>\<open>Math.pow(x, 0)\<close> is 1 for every x.
  ECMAScript leaves the accuracy of \<^verbatim>\<open>Math.pow\<close> to the engine; the model rounds the
  exact power correctly. The source calls it with the exponent 2 only, for which the
  engines return the correctly rounded \<^verbatim>\<open>x * x\<close>.
\<close>

fun js_pow :: "jsnum \<Rightarrow> nat \<Rightarrow> jsnum" where
  "js_pow x 0 = Fin 1"
| "js_pow (Fin a) n = round64 (a ^ n)"
| "js_pow NZero n = (if even n then Fin 0 else NZero)"
| "js_pow PInf n = PInf"
| "js_pow NInf n = (if even n then PInf else NInf)"
| "js_pow NaN n = NaN"

text \<open>\<^verbatim>\<open>Math.sqrt(x)\<close>, correctly rounded.\<close>

fun js_sqrt :: "jsnum \<Rightarrow> jsnum" where
  "js_sqrt (Fin a) = (if a < 0 then NaN else round64 (sqrt a))"
| "js_sqrt NZero = NZero"
| "js_sqrt PInf = PInf"
| "js_sqrt NInf = NaN"
| "js_sqrt NaN = NaN"

text \<open>\<^verbatim>\<open>x > y\<close>: false as soon as one side is NaN; the two zeros are equal.\<close>

fun js_gt :: "jsnum \<Rightarrow> jsnum \<Rightarrow> bool" where
  "js_gt NaN _ = False"
| "js_gt _ NaN = False"
| "js_gt PInf PInf = False"
| "js_gt PInf _ = True"
| "js_gt _ PInf = False"
| "js_gt NInf _ = False"
| "js_gt _ NInf = True"
| "js_gt x y = (value_of y < value_of x)"

text \<open>
  \<^verbatim>\<open>x.toFixed(f)\<close> on a finite x picks the integer n for which \<^verbatim>\<open>n / 10^f\<close> is closest
  to \<^verbatim>\<open>|x|\<close>, the larger n on a tie, and prints it with the sign of x; \<open>fixed\<close> is the
  value of that decimal string.
\<close>

definition fixed :: "nat \<Rightarrow> real \<Rightarrow> real" where
  "fixed f x = (if x < 0 then - (of_int \<lfloor>(- x) * 10 ^ f + 1 / 2\<rfloor> / 10 ^ f)
                else of_int \<lfloor>x * 10 ^ f + 1 / 2\<rfloor> / 10 ^ f)"

text \<open>
  \<^verbatim>\<open>+x.toFixed(f)\<close>, as the source always writes it: the string is read back as a
  number at once, that is, rounded to binary64. A negative x that prints as
  \<^verbatim>\<open>-0.00\<close> reads back as \<^verbatim>\<open>-0\<close>, while \<^verbatim>\<open>-0\<close> itself prints without a sign. NaN and the
  infinities print as their names and read back as themselves. From \<^verbatim>\<open>1e21\<close> on
  \<^verbatim>\<open>toFixed\<close> prints the number as \<^verbatim>\<open>String\<close> does, which reads back as the number.
\<close>

fun toFixed :: "nat \<Rightarrow> jsnum \<Rightarrow> jsnum" where
  "toFixed f (Fin x) =
     (if 10 ^ 21 \<le> \<bar>x\<bar> then Fin x
      else if x < 0 \<and> fixed f x = 0 then NZero
      else round64 (fixed f x))"
| "toFixed f NZero = Fin 0"
| "toFixed f PInf = PInf"
| "toFixed f NInf = NInf"
| "toFixed f NaN = NaN"

section \<open>The UTC calendar day of a timestamp\<close>

text \<open>
  \<^verbatim>\<open>new Date(t * 1000).toISOString().slice(0, 10)\<close> for a timestamp t in whole seconds.
  \<^verbatim>\<open>Date\<close> belongs to the JavaScript runtime, not to the repository; the following is its
  ECMAScript definition: the day number is \<^verbatim>\<open>floor(ms / 86400000)\<close>, the civil date is
  the proleptic Gregorian one, years 0 to 9999 print with four digits and all others with
  a sign and six digits, and a time value beyond 8.64e15 ms is an invalid date on which
  \<^verbatim>\<open>toISOString\<close> throws a RangeError.
\<close>

definition civil_from_days :: "int \<Rightarrow> int \<times> nat \<times> nat" where
  "civil_from_days z0 =
     (let z = z0 + 719468;
          era = z div 146097;
          doe = z mod 146097;
          yoe = (doe - doe div 1460 + doe div 36524 - doe div 146096) div 365;
          doy = doe - (365 * yoe + yoe div 4 - yoe div 100);
          mp = (5 * doy + 2) div 153;
          d = doy - (153 * mp + 2) div 5 + 1;
          m = (if mp < 10 then mp + 3 else mp - 9);
          y = yoe + era * 400 + (if m \<le> 2 then 1 else 0)
      in (y, nat m, nat d))"

fun pad :: "nat \<Rightarrow> nat \<Rightarrow> string" where
  "pad 0 n = []"
| "pad (Suc w) n = pad w (n div 10) @ [''0123456789'' ! (n mod 10)]"

definition year_string :: "int \<Rightarrow> string" where
  "year_string y =
     (if 0 \<le> y \<and> y \<le> 9999 then pad 4 (nat y)
      else (if y < 0 then ''-'' else ''+'') @ pad 6 (nat \<bar>y\<bar>))"

section \<open>Errors\<close>

text \<open>
  Everything \<^verbatim>\<open>fetchOHLC\<close> can throw. \<open>Rejected\<close> is a rejection of \<^verbatim>\<open>fetch\<close> or of
  \<^verbatim>\<open>res.json()\<close> with the runtime's message; \<open>TypeError\<close> is the call of
  \<^verbatim>\<open>findIndex\<close> on a missing \<^verbatim>\<open>timestamp\<close>; \<open>RangeError\<close> comes from
  \<^verbatim>\<open>toISOString\<close>. The other four are the \<^verbatim>\<open>throw new Error(...)\<close> of the source.
\<close>

datatype error =
    Rejected string
  | NetworkError nat
  | MalformedPayload
  | TypeError
  | RangeError
  | OffsetOutsideRange
  | ClosePriceMissing

fun decimal :: "nat \<Rightarrow> string" where
  "decimal n = (if n < 10 then [''0123456789'' ! n]
                else decimal (n div 10) @ [''0123456789'' ! (n mod 10)])"

text \<open>
  \<^verbatim>\<open>e.message\<close>. The wording of the two runtime errors is the engine's; the model fixes
  one wording for each.
\<close>

fun message :: "error \<Rightarrow> string" where
  "message (Rejected m) = m"
| "message (NetworkError status) = ''Network error '' @ decimal status"
| "message MalformedPayload = ''Malformed Yahoo payload''"
| "message TypeError = ''Cannot read properties of undefined''"
| "message RangeError = ''Invalid time value''"
| "message OffsetOutsideRange = ''Offset outside range''"
| "message ClosePriceMissing = ''Close price missing''"

definition isoDay :: "int \<Rightarrow> error + string" where
  "isoDay t =
     (let ms = t * 1000 in
      if 8640000000000000 < \<bar>ms\<bar> then Inl RangeError
      else (case civil_from_days (ms div 86400000) of
              (y, m, d) \<Rightarrow> Inr (take 10 (year_string y @ ''-'' @ pad 2 m @ ''-'' @ pad 2 d))))"

section \<open>The price series provider\<close>

text \<open>
  What \<^verbatim>\<open>fetch(buildYahooChartURL(date))\<close> answers. The URL is a function of the date
  alone, so a provider is a function of the date: asked twice for one date it answers
  the same. \<open>chart_result\<close> is \<^verbatim>\<open>json?.chart?.result?.[0]\<close>, \<open>timestamp\<close> its field of
  that name and \<open>close\<close> is \<^verbatim>\<open>indicators?.quote?.[0]?.close\<close>, a list whose entries are
  a number or \<^verbatim>\<open>null\<close>; \<open>None\<close> stands for a field that is absent.
\<close>

record chart_result =
  timestamp :: "int list option"
  close :: "jsnum option list option"

datatype body = NotJson string | Json "chart_result option"

datatype response = FetchRejected string | Response nat body

type_synonym provider = "string \<Rightarrow> response"

text \<open>\<^verbatim>\<open>res.ok\<close>\<close>

definition ok :: "nat \<Rightarrow> bool" where
  "ok status = (200 \<le> status \<and> status \<le> 299)"

section \<open>fetchOHLC\<close>

text \<open>
  \<^verbatim>\<open>timestamp.findIndex((t) => new Date(t * 1000).toISOString().slice(0, 10) === date)\<close>:
  the first index whose calendar day is the date, \<open>-1\<close> when there is none. The
  callback runs on the elements in order, so an invalid date met before a match throws.
  The second argument is the index of the head of the list.
\<close>

fun findIndex :: "string \<Rightarrow> int list \<Rightarrow> nat \<Rightarrow> error + int" where
  "findIndex date [] i = Inr (- 1)"
| "findIndex date (t # ts) i =
     (case isoDay t of
        Inl e \<Rightarrow> Inl e
      | Inr day \<Rightarrow> if day = date then Inr (int i) else findIndex date ts (Suc i))"

text \<open>\<^verbatim>\<open>fetchOHLC(date, offset)\<close> of \<^verbatim>\<open>src/WWDCMomentumDashboard.tsx\<close>, lines 58 to 72.\<close>

definition fetchOHLC :: "provider \<Rightarrow> string \<Rightarrow> int \<Rightarrow> error + jsnum" where
  "fetchOHLC p date offset =
     (case p date of
        FetchRejected m \<Rightarrow> Inl (Rejected m)
      | Response status b \<Rightarrow>
          if \<not> ok status then Inl (NetworkError status)
          else (case b of
             NotJson m \<Rightarrow> Inl (Rejected m)
           | Json None \<Rightarrow> Inl MalformedPayload
           | Json (Some result) \<Rightarrow>
               (let closes = (case close result of None \<Rightarrow> [] | Some cs \<Rightarrow> cs) in
                case timestamp result of
                  None \<Rightarrow> Inl TypeError
                | Some ts \<Rightarrow>
                    (case findIndex date ts 0 of
                       Inl e \<Rightarrow> Inl e
                     | Inr idx \<Rightarrow>
                         (let targetIdx = idx + offset in
                          if idx < 0 \<or> targetIdx < 0 \<or> int (length closes) \<le> targetIdx
                          then Inl OffsetOutsideRange
                          else (case closes ! nat targetIdx of
                                  None \<Rightarrow> Inl ClosePriceMissing
                                | Some price \<Rightarrow> Inr price))))))"

section \<open>The component\<close>

text \<open>The configuration, lines 29 to 50 of the source.\<close>

record event =
  ev_year :: int
  ev_date :: string

definition wwdcDates :: "event list" where
  "wwdcDates =
     [\<lparr>ev_year = 2019, ev_date = ''2019-06-03''\<rparr>,
      \<lparr>ev_year = 2020, ev_date = ''2020-06-22''\<rparr>,
      \<lparr>ev_year = 2021, ev_date = ''2021-06-07''\<rparr>,
      \<lparr>ev_year = 2022, ev_date = ''2022-06-06''\<rparr>,
      \<lparr>ev_year = 2023, ev_date = ''2023-06-05''\<rparr>,
      \<lparr>ev_year = 2024, ev_date = ''2024-06-10''\<rparr>]"

record offset =
  label :: string
  val :: int

definition buyOffsets :: "offset list" where
  "buyOffsets =
     [\<lparr>label = ''5 sessions before'', val = - 5\<rparr>,
      \<lparr>label = ''1 session before'', val = - 1\<rparr>,
      \<lparr>label = ''Open day-of'', val = 0\<rparr>]"

definition sellOffsets :: "offset list" where
  "sellOffsets =
     [\<lparr>label = ''Close day-of'', val = 0\<rparr>,
      \<lparr>label = ''5 sessions after'', val = 5\<rparr>,
      \<lparr>label = ''20 sessions after'', val = 20\<rparr>]"

text \<open>
  A row of the result table: \<^verbatim>\<open>{ year: number | string; ret: number }\<close>. The year of
  an event is a number, the tag of an aggregate row a string.
\<close>

datatype year_or_tag = Year int | Tag string

record row =
  year :: year_or_tag
  ret :: jsnum

text \<open>Line 89: \<^verbatim>\<open>+(((sellP - buyP) / buyP) * 100).toFixed(2)\<close>.\<close>

definition percentReturn :: "jsnum \<Rightarrow> jsnum \<Rightarrow> jsnum" where
  "percentReturn buyP sellP = toFixed 2 (js_mul (js_div (js_sub sellP buyP) buyP) (Fin 100))"

text \<open>
  The \<^verbatim>\<open>for\<close> loop of lines 86 to 90, over the events still to do and the rows pushed
  so far. An exception of either \<^verbatim>\<open>fetchOHLC\<close> leaves the loop at once.
\<close>

fun backtestLoop :: "provider \<Rightarrow> int \<Rightarrow> int \<Rightarrow> event list \<Rightarrow> row list \<Rightarrow> error + row list" where
  "backtestLoop p b s [] rows = Inr rows"
| "backtestLoop p b s (ev # evs) rows =
     (case fetchOHLC p (ev_date ev) b of
        Inl e \<Rightarrow> Inl e
      | Inr buyP \<Rightarrow>
          (case fetchOHLC p (ev_date ev) s of
             Inl e \<Rightarrow> Inl e
           | Inr sellP \<Rightarrow>
               backtestLoop p b s evs
                 (rows @ [\<lparr>year = Year (ev_year ev), ret = percentReturn buyP sellP\<rparr>])))"

text \<open>Lines 91 to 93: \<^verbatim>\<open>rows.length\<close> as a number, and the three statistics.\<close>

definition count :: "row list \<Rightarrow> jsnum" where
  "count rows = Fin (real (length rows))"

definition mean :: "row list \<Rightarrow> jsnum" where
  "mean rows = js_div (foldl (\<lambda>s r. js_add s (ret r)) (Fin 0) rows) (count rows)"

definition stdev :: "row list \<Rightarrow> jsnum" where
  "stdev rows =
     js_sqrt (js_div (foldl (\<lambda>s r. js_add s (js_pow (js_sub (ret r) (mean rows)) 2)) (Fin 0) rows)
                     (count rows))"

definition winRate :: "row list \<Rightarrow> jsnum" where
  "winRate rows =
     js_div (Fin (real (length (filter (\<lambda>r. js_gt (ret r) (Fin 0)) rows)))) (count rows)"

text \<open>Lines 94 to 99: the argument of \<^verbatim>\<open>setResults\<close>.\<close>

definition summaryRows :: "row list \<Rightarrow> row list" where
  "summaryRows rows =
     rows @
     [\<lparr>year = Tag ''Avg'', ret = toFixed 2 (mean rows)\<rparr>,
      \<lparr>year = Tag ''StDev'', ret = toFixed 2 (stdev rows)\<rparr>,
      \<lparr>year = Tag ''WinRate'', ret = toFixed 0 (js_mul (winRate rows) (Fin 100))\<rparr>]"

text \<open>The state of the component, lines 75 to 79.\<close>

record dashboard =
  buy :: offset
  sell :: offset
  results :: "row list option"
  loading :: bool
  error :: "string option"

definition initial :: dashboard where
  "initial = \<lparr>buy = buyOffsets ! 1, sell = sellOffsets ! 0,
              results = None, loading = False, error = None\<rparr>"

text \<open>
  \<^verbatim>\<open>runBacktest\<close>, lines 81 to 105, from the state in which the button is pressed to
  the state after \<^verbatim>\<open>finally\<close>. The source runs it on the constant \<^verbatim>\<open>wwdcDates\<close>;
  \<open>runBacktestOn\<close> takes the events as an argument.
\<close>

definition runBacktestOn :: "provider \<Rightarrow> event list \<Rightarrow> dashboard \<Rightarrow> dashboard" where
  "runBacktestOn p events st =
     (let st1 = st\<lparr>loading := True, error := None\<rparr>;
          st2 = (case backtestLoop p (val (buy st)) (val (sell st)) events [] of
                   Inr rows \<Rightarrow> st1\<lparr>results := Some (summaryRows rows)\<rparr>
                 | Inl e \<Rightarrow> st1\<lparr>error := Some (message e)\<rparr>)
      in st2\<lparr>loading := False\<rparr>)"

definition runBacktest :: "provider \<Rightarrow> dashboard \<Rightarrow> dashboard" where
  "runBacktest p st = runBacktestOn p wwdcDates st"

section \<open>The earlier version of fetchOHLC\<close>

text \<open>
  The repository holds a second copy of the component, version 2 of the same file. Its
  \<^verbatim>\<open>fetchOHLC\<close> (lines 86 to 116 there) tests the same conditions one by one and throws
  a different error for each: \<open>PriceSeriesMissing\<close> is "Price series missing",
  \<open>TargetDateNotFound d\<close> is "Target date d not found in series",
  \<open>OffsetOutsideWindow\<close> is "Offset points outside data window" and \<open>PriceNull\<close> is
  "Price is null/undefined".
\<close>

datatype error_v2 =
    Rejected_v2 string
  | NetworkError_v2 nat
  | NotValidJson
  | MalformedData
  | PriceSeriesMissing
  | RangeError_v2
  | TargetDateNotFound string
  | OffsetOutsideWindow
  | PriceNull

definition fetchOHLC_v2 :: "provider \<Rightarrow> string \<Rightarrow> int \<Rightarrow> error_v2 + jsnum" where
  "fetchOHLC_v2 p date offset =
     (case p date of
        FetchRejected m \<Rightarrow> Inl (Rejected_v2 m)
      | Response status b \<Rightarrow>
          if \<not> ok status then Inl (NetworkError_v2 status)
          else (case b of
             NotJson m \<Rightarrow> Inl NotValidJson
           | Json None \<Rightarrow> Inl MalformedData
           | Json (Some result) \<Rightarrow>
               (let closes = (case close result of None \<Rightarrow> [] | Some cs \<Rightarrow> cs) in
                case timestamp result of
                  None \<Rightarrow> Inl PriceSeriesMissing
                | Some ts \<Rightarrow>
                    if closes = [] then Inl PriceSeriesMissing
                    else (case findIndex date ts 0 of
                       Inl e \<Rightarrow> Inl RangeError_v2
                     | Inr idx \<Rightarrow>
                         if idx = - 1 then Inl (TargetDateNotFound date)
                         else (let targetIdx = idx + offset in
                          if targetIdx < 0 \<or> int (length closes) \<le> targetIdx
                          then Inl OffsetOutsideWindow
                          else (case closes ! nat targetIdx of
                                  None \<Rightarrow> Inl PriceNull
                                | Some price \<Rightarrow> Inr price))))))"

section \<open>The statistics as the specification words them\<close>

text \<open>
  The arithmetic mean, the population standard deviation (the sum of the squared
  deviations from the mean, divided by N, under the square root) and the share of
  strictly positive values as a percentage, over a list of real numbers.
\<close>

definition spec_mean :: "real list \<Rightarrow> real" where
  "spec_mean xs = sum_list xs / real (length xs)"

definition spec_stdev :: "real list \<Rightarrow> real" where
  "spec_stdev xs = sqrt ((\<Sum>x\<leftarrow>xs. (x - spec_mean xs)\<^sup>2) / real (length xs))"

definition spec_winRate :: "real list \<Rightarrow> real" where
  "spec_winRate xs = real (length (filter (\<lambda>x. 0 < x) xs)) / real (length xs) * 100"

text \<open>
  \<open>r\<close> is \<open>x\<close> rounded to \<open>d\<close> decimals: a multiple of \<open>10^-d\<close> at most half such a
  unit away from \<open>x\<close>.
\<close>

definition rounded_to :: "nat \<Rightarrow> real \<Rightarrow> real \<Rightarrow> bool" where
  "rounded_to d x r \<longleftrightarrow> frac (r * 10 ^ d) = 0 \<and> \<bar>r - x\<bar> * (2 * 10 ^ d) \<le> 1"


section \<open>Sample data\<close>

text \<open>
  A series of two sessions: the Monday whose session opens at \<open>t\<close>, and the Friday
  before it.
\<close>

definition two_sessions :: "int \<Rightarrow> jsnum option \<Rightarrow> jsnum option \<Rightarrow> response" where
  "two_sessions t c0 c1 =
     Response 200 (Json (Some \<lparr>timestamp = Some [t - 259200, t], close = Some [c0, c1]\<rparr>))"

text \<open>
  The end-to-end scenario of the specification: the session before 2019-06-03 closes at
  100 and 2019-06-03 at 102, the session before 2020-06-22 at 200 and 2020-06-22 at 198.
  The other four keynotes have a series too; any other date has none.
\<close>

definition scenario :: provider where
  "scenario date =
     (if date = ''2019-06-03'' then two_sessions 1559568600 (Some (Fin 100)) (Some (Fin 102))
      else if date = ''2020-06-22'' then two_sessions 1592832600 (Some (Fin 200)) (Some (Fin 198))
      else if date = ''2021-06-07'' then two_sessions 1623072600 (Some (Fin 125)) (Some (Fin 126))
      else if date = ''2022-06-06'' then two_sessions 1654522200 (Some (Fin 145)) (Some (Fin 146))
      else if date = ''2023-06-05'' then two_sessions 1685971800 (Some (Fin 181)) (Some (Fin 180))
      else if date = ''2024-06-10'' then two_sessions 1718026200 (Some (Fin 197)) (Some (Fin 193))
      else Response 404 (Json None))"

definition first_two :: "event list" where
  "first_two = take 2 wwdcDates"

text \<open>A series in which the session before the keynote closes at zero, and one in which
  the close of the keynote session is \<^verbatim>\<open>null\<close>.\<close>

definition zero_close :: provider where
  "zero_close date = two_sessions 1559568600 (Some (Fin 0)) (Some (Fin 5))"

definition null_close :: provider where
  "null_close date = two_sessions 1559568600 (Some (Fin 100)) None"

text \<open>A provider that answers every date with the two sessions 2019-05-31 and
  2019-06-03, closing at 100 and 102.\<close>

definition one_series :: provider where
  "one_series date = two_sessions 1559568600 (Some (Fin 100)) (Some (Fin 102))"

definition first_one :: "event list" where
  "first_one = take 1 wwdcDates"

text \<open>The rows of the scenario with entry one session before and exit on the day, and
  the first two of them.\<close>

definition scenario_rows :: "row list" where
  "scenario_rows =
     [\<lparr>year = Year 2019, ret = Fin 2\<rparr>,
      \<lparr>year = Year 2020, ret = Fin (- 1)\<rparr>,
      \<lparr>year = Year 2021, ret = Fin (3602879701896397 / 2 ^ 52)\<rparr>,
      \<lparr>year = Year 2022, ret = Fin (1553741871442821 / 2 ^ 51)\<rparr>,
      \<lparr>year = Year 2023, ret = Fin (- (2476979795053773 / 2 ^ 52))\<rparr>,
      \<lparr>year = Year 2024, ret = Fin (- (4571153621781053 / 2 ^ 51))\<rparr>]"

definition scenario_results :: "row list" where
  "scenario_results =
     [\<lparr>year = Year 2019, ret = Fin 2\<rparr>,
      \<lparr>year = Year 2020, ret = Fin (- 1)\<rparr>,
      \<lparr>year = Tag ''Avg'', ret = Fin (1 / 2)\<rparr>,
      \<lparr>year = Tag ''StDev'', ret = Fin (3 / 2)\<rparr>,
      \<lparr>year = Tag ''WinRate'', ret = Fin 50\<rparr>]"

text \<open>The scenario with one more date, on which the provider cannot be reached.\<close>

definition scenario_offline :: provider where
  "scenario_offline = scenario(''1999-01-01'' := FetchRejected ''Failed to fetch'')"

text \<open>A state left behind by an earlier run.\<close>

definition stale :: dashboard where
  "stale = initial\<lparr>results := Some [], error := Some ''Network error 500''\<rparr>"



section \<open>The row of an event\<close>

text \<open>
  The row the loop pushes for an event whose two prices were both fetched; \<open>resolved\<close>
  says that they were.
\<close>

definition resolved :: "provider \<Rightarrow> int \<Rightarrow> int \<Rightarrow> event \<Rightarrow> bool" where
  "resolved p b s ev \<longleftrightarrow>
     \<not> isl (fetchOHLC p (ev_date ev) b) \<and> \<not> isl (fetchOHLC p (ev_date ev) s)"

definition observation :: "provider \<Rightarrow> int \<Rightarrow> int \<Rightarrow> event \<Rightarrow> row" where
  "observation p b s ev =
     \<lparr>year = Year (ev_year ev),
      ret = percentReturn (projr (fetchOHLC p (ev_date ev) b))
                          (projr (fetchOHLC p (ev_date ev) s))\<rparr>"

text \<open>The first exception an event raises: that of the entry price, else that of the
  exit price.\<close>

definition raises :: "provider \<Rightarrow> int \<Rightarrow> int \<Rightarrow> event \<Rightarrow> error \<Rightarrow> bool" where
  "raises p b s ev e \<longleftrightarrow>
     fetchOHLC p (ev_date ev) b = Inl e \<or>
     (\<not> isl (fetchOHLC p (ev_date ev) b) \<and> fetchOHLC p (ev_date ev) s = Inl e)"


section \<open>Rounding\<close>

lemma half_floor: "\<bar>of_int \<lfloor>y + 1 / 2\<rfloor> - (y::real)\<bar> \<le> 1 / 2"
  by linarith

text \<open>What \<^verbatim>\<open>toFixed\<close> prints is the argument rounded to that many decimals.\<close>

lemma fixed_rounded: "rounded_to d x (fixed d x)"
proof -
  have r: "\<bar>of_int \<lfloor>y * 10 ^ d + 1 / 2\<rfloor> / 10 ^ d - y\<bar> * (2 * 10 ^ d) \<le> 1" for y :: real
  proof -
    have "\<bar>of_int \<lfloor>y * 10 ^ d + 1 / 2\<rfloor> / 10 ^ d - y\<bar> * 10 ^ d
          = \<bar>(of_int \<lfloor>y * 10 ^ d + 1 / 2\<rfloor> / 10 ^ d - y) * 10 ^ d\<bar>"
      by (simp add: abs_mult)
    also have "\<dots> = \<bar>of_int \<lfloor>y * 10 ^ d + 1 / 2\<rfloor> - y * 10 ^ d\<bar>"
      by (simp add: left_diff_distrib)
    also have "\<dots> \<le> 1 / 2" by (rule half_floor)
    finally show ?thesis by simp
  qed
  show ?thesis
  proof (cases "x < 0")
    case True
    have "\<bar>- (of_int \<lfloor>(- x) * 10 ^ d + 1 / 2\<rfloor> / 10 ^ d) - x\<bar>
          = \<bar>of_int \<lfloor>(- x) * 10 ^ d + 1 / 2\<rfloor> / 10 ^ d - (- x)\<bar>" by simp
    with r [of "- x"] True show ?thesis by (simp add: rounded_to_def fixed_def)
  next
    case False
    with r [of x] show ?thesis by (simp add: rounded_to_def fixed_def)
  qed
qed

subsection \<open>The exponent and the rounding of a given number\<close>

lemma two_powi_pos: "0 < (2::real) powi k"
  by (simp add: zero_less_power_int)

lemma two_powi_nat: "0 \<le> k \<Longrightarrow> (2::real) powi k = 2 ^ nat k"
  by (simp add: power_int_def)

lemma two_powi_neg: "0 \<le> j \<Longrightarrow> (2::real) powi (- j) = 1 / 2 ^ nat j"
  by (simp add: power_int_minus_divide two_powi_nat)

lemma ilog2_bounds:
  assumes "0 < a"
  shows "2 powi (ilog2 a) \<le> a" and "a < 2 powi (ilog2 a + 1)"
proof -
  have "2 powi (ilog2 a) \<le> a \<and> a < 2 powi (ilog2 a + 1)"
  proof (cases "1 \<le> a")
    case True
    define n where "n = \<lfloor>a\<rfloor>"
    have n: "0 < n" using True by (simp add: n_def)
    define k where "k = bitlen n - 1"
    have k0: "0 \<le> k" using n by (simp add: k_def bitlen_alt_def)
    from bitlen_bounds [OF n]
    have lo: "2 ^ nat k \<le> n" and hi: "n < 2 ^ nat (k + 1)" by (simp_all add: k_def)
    have il: "ilog2 a = k" using True by (simp add: ilog2_def k_def n_def)
    have "(2::real) ^ nat k \<le> of_int n" using lo by (metis of_int_le_iff of_int_numeral of_int_power)
    also have "\<dots> \<le> a" by (simp add: n_def)
    finally have 1: "2 powi k \<le> a" using k0 by (simp add: two_powi_nat)
    have "n + 1 \<le> 2 ^ nat (k + 1)" using hi by simp
    then have "of_int (n + 1) \<le> (2::real) ^ nat (k + 1)"
      by (metis of_int_le_iff of_int_numeral of_int_power)
    moreover have "a < of_int (n + 1)" by (simp add: n_def)
    ultimately have "a < 2 ^ nat (k + 1)" by linarith
    then have 2: "a < 2 powi (k + 1)" using k0 by (simp add: two_powi_nat)
    from 1 2 il show ?thesis by simp
  next
    case False
    with assms have y1: "1 < 1 / a" by simp
    define m where "m = \<lceil>1 / a\<rceil>"
    have m: "0 < m - 1" using y1 by (simp add: m_def)
    define j where "j = bitlen (m - 1)"
    have j1: "1 \<le> j" using m by (simp add: j_def bitlen_alt_def)
    from bitlen_bounds [OF m]
    have lo: "2 ^ nat (j - 1) \<le> m - 1" and hi: "m - 1 < 2 ^ nat j" by (simp_all add: j_def)
    have il: "ilog2 a = - j" using False by (simp add: ilog2_def j_def m_def)
    have "m \<le> 2 ^ nat j" using hi by simp
    then have "of_int m \<le> (2::real) ^ nat j"
      by (metis of_int_le_iff of_int_numeral of_int_power)
    moreover have "1 / a \<le> of_int m" by (simp add: m_def)
    ultimately have "1 / a \<le> 2 ^ nat j" by linarith
    then have "1 / 2 ^ nat j \<le> a" using assms by (simp add: divide_le_eq mult.commute)
    then have 1: "2 powi (- j) \<le> a" using j1 by (simp add: two_powi_neg)
    have "(2::real) ^ nat (j - 1) \<le> of_int (m - 1)" using lo
      by (metis of_int_le_iff of_int_numeral of_int_power)
    moreover have "of_int (m - 1) < 1 / a" by (simp add: m_def) linarith
    ultimately have "2 ^ nat (j - 1) < 1 / a" by linarith
    then have lt: "a < 1 / 2 ^ nat (j - 1)" using assms by (simp add: less_divide_eq mult.commute)
    have "- j + 1 = - (j - 1)" by simp
    then have "(2::real) powi (- j + 1) = 1 / 2 ^ nat (j - 1)"
      using j1 two_powi_neg [of "j - 1"] by simp
    with lt have 2: "a < 2 powi (- j + 1)" by simp
    from 1 2 il show ?thesis by simp
  qed
  then show "2 powi (ilog2 a) \<le> a" and "a < 2 powi (ilog2 a + 1)" by simp_all
qed

lemma ilog2_eq:
  assumes "2 powi k \<le> a" and "a < 2 powi (k + 1)"
  shows "ilog2 a = k"
proof -
  have pos: "0 < a" using assms(1) two_powi_pos [of k] by linarith
  note b = ilog2_bounds [OF pos]
  have "(2::real) powi k < 2 powi (ilog2 a + 1)" using assms(1) b(2) by linarith
  then have "k < ilog2 a + 1"
    by (metis linorder_not_le one_le_numeral power_int_increasing)
  moreover have "(2::real) powi (ilog2 a) < 2 powi (k + 1)" using assms(2) b(1) by linarith
  then have "ilog2 a < k + 1"
    by (metis linorder_not_le one_le_numeral power_int_increasing)
  ultimately show ?thesis by simp
qed

lemma round64_eval:
  assumes "2 powi k \<le> \<bar>x\<bar>" and "\<bar>x\<bar> < 2 powi (k + 1)"
  shows "round64 x =
     (let e = max (k - 52) (- 1074);
          y = of_int (rne (\<bar>x\<bar> / 2 powi e)) * 2 powi e
      in if 2 ^ 1024 \<le> y then inf_of (x < 0)
         else if y = 0 then zero_of (x < 0)
         else Fin (if x < 0 then - y else y))"
proof -
  have "x \<noteq> 0"
  proof
    assume "x = 0"
    with assms(1) have "2 powi k \<le> (0::real)" by simp
    with two_powi_pos [of k] show False by linarith
  qed
  then show ?thesis by (simp add: round64_def ilog2_eq [OF assms])
qed

lemma rne_error: "\<bar>of_int (rne x) - x\<bar> \<le> 1 / 2"
  by (simp add: rne_def Let_def)

lemma rne_of_int: "rne (of_int n) = n"
  by (simp add: rne_def Let_def)

lemma round64_not_NaN: "round64 x \<noteq> NaN"
  by (simp add: round64_def Let_def zero_of_def inf_of_def)

lemma round64_0: "round64 0 = Fin 0"
  by (simp add: round64_def)

subsection \<open>Evaluated roundings\<close>

lemma round64_1: "round64 1 = Fin 1"
  by (simp add:  round64_eval [where k = "0"] power_int_minus rne_def Let_def inf_of_def zero_of_def round64_0)

lemma round64_2: "round64 2 = Fin 2"
  by (simp add:  round64_eval [where k = "1"] power_int_minus rne_def Let_def inf_of_def zero_of_def round64_0)

lemma round64_4: "round64 4 = Fin 4"
  by (simp add:  round64_eval [where k = "2"] power_int_minus rne_def Let_def inf_of_def zero_of_def round64_0)

lemma round64_10: "round64 10 = Fin 10"
  by (simp add:  round64_eval [where k = "3"] power_int_minus rne_def Let_def inf_of_def zero_of_def round64_0)

lemma round64_50: "round64 50 = Fin 50"
  by (simp add:  round64_eval [where k = "5"] power_int_minus rne_def Let_def inf_of_def zero_of_def round64_0)

lemma round64_100: "round64 100 = Fin 100"
  by (simp add:  round64_eval [where k = "6"] power_int_minus rne_def Let_def inf_of_def zero_of_def round64_0)

lemma round64_1_2: "round64 (1 / 2) = Fin (1 / 2)"
  by (simp add:  round64_eval [where k = "- 1"] power_int_minus rne_def Let_def inf_of_def zero_of_def round64_0)

lemma round64_3_2: "round64 (3 / 2) = Fin (3 / 2)"
  by (simp add:  round64_eval [where k = "0"] power_int_minus rne_def Let_def inf_of_def zero_of_def round64_0)

lemma round64_m3_2: "round64 (- (3 / 2)) = Fin (- (3 / 2))"
  by (simp add:  round64_eval [where k = "0"] power_int_minus rne_def Let_def inf_of_def zero_of_def round64_0)

lemma round64_9_4: "round64 (9 / 4) = Fin (9 / 4)"
  by (simp add:  round64_eval [where k = "1"] power_int_minus rne_def Let_def inf_of_def zero_of_def round64_0)

lemma round64_9_2: "round64 (9 / 2) = Fin (9 / 2)"
  by (simp add:  round64_eval [where k = "2"] power_int_minus rne_def Let_def inf_of_def zero_of_def round64_0)

lemmas round64_small = round64_1 round64_2 round64_4 round64_10 round64_50 round64_100 round64_1_2 round64_3_2 round64_m3_2 round64_9_4 round64_9_2

section \<open>The percentage return\<close>

text \<open>The returns of the sample prices, operation by operation.\<close>

lemma ret_100_102: "percentReturn (Fin 100) (Fin 102) = Fin 2"
proof -
  have 1: "js_sub (Fin 102) (Fin 100) = Fin 2"
    by (simp add: js_sub_def round64_eval [where k = "1"] power_int_minus rne_def Let_def inf_of_def zero_of_def round64_0)
  have 2: "js_div (Fin 2) (Fin 100) = Fin (5764607523034235 / 2 ^ 58)"
    by (simp add: js_sub_def round64_eval [where k = "- 6"] power_int_minus rne_def Let_def inf_of_def zero_of_def round64_0)
  have 3: "js_mul (Fin (5764607523034235 / 2 ^ 58)) (Fin 100) = Fin 2"
    by (simp add: js_sub_def round64_eval [where k = "1"] power_int_minus rne_def Let_def inf_of_def zero_of_def round64_0)
  have 4: "toFixed 2 (Fin 2) = Fin 2"
    by (simp add: fixed_def round64_eval [where k = "1"] power_int_minus rne_def Let_def inf_of_def zero_of_def round64_0)
  show ?thesis unfolding percentReturn_def 1 2 3 4 ..
qed

lemma ret_200_198: "percentReturn (Fin 200) (Fin 198) = Fin (- 1)"
proof -
  have 1: "js_sub (Fin 198) (Fin 200) = Fin (- 2)"
    by (simp add: js_sub_def round64_eval [where k = "1"] power_int_minus rne_def Let_def inf_of_def zero_of_def round64_0)
  have 2: "js_div (Fin (- 2)) (Fin 200) = Fin (- (5764607523034235 / 2 ^ 59))"
    by (simp add: js_sub_def round64_eval [where k = "- 7"] power_int_minus rne_def Let_def inf_of_def zero_of_def round64_0)
  have 3: "js_mul (Fin (- (5764607523034235 / 2 ^ 59))) (Fin 100) = Fin (- 1)"
    by (simp add: js_sub_def round64_eval [where k = "0"] power_int_minus rne_def Let_def inf_of_def zero_of_def round64_0)
  have 4: "toFixed 2 (Fin (- 1)) = Fin (- 1)"
    by (simp add: fixed_def round64_eval [where k = "0"] power_int_minus rne_def Let_def inf_of_def zero_of_def round64_0)
  show ?thesis unfolding percentReturn_def 1 2 3 4 ..
qed

lemma ret_125_126: "percentReturn (Fin 125) (Fin 126) = Fin (3602879701896397 / 2 ^ 52)"
proof -
  have 1: "js_sub (Fin 126) (Fin 125) = Fin 1"
    by (simp add: js_sub_def round64_eval [where k = "0"] power_int_minus rne_def Let_def inf_of_def zero_of_def round64_0)
  have 2: "js_div (Fin 1) (Fin 125) = Fin (1152921504606847 / 2 ^ 57)"
    by (simp add: js_sub_def round64_eval [where k = "- 7"] power_int_minus rne_def Let_def inf_of_def zero_of_def round64_0)
  have 3: "js_mul (Fin (1152921504606847 / 2 ^ 57)) (Fin 100) = Fin (3602879701896397 / 2 ^ 52)"
    by (simp add: js_sub_def round64_eval [where k = "- 1"] power_int_minus rne_def Let_def inf_of_def zero_of_def round64_0)
  have 4: "toFixed 2 (Fin (3602879701896397 / 2 ^ 52)) = Fin (3602879701896397 / 2 ^ 52)"
    by (simp add: fixed_def round64_eval [where k = "- 1"] power_int_minus rne_def Let_def inf_of_def zero_of_def round64_0)
  show ?thesis unfolding percentReturn_def 1 2 3 4 ..
qed

lemma ret_145_146: "percentReturn (Fin 145) (Fin 146) = Fin (1553741871442821 / 2 ^ 51)"
proof -
  have 1: "js_sub (Fin 146) (Fin 145) = Fin 1"
    by (simp add: js_sub_def round64_eval [where k = "0"] power_int_minus rne_def Let_def inf_of_def zero_of_def round64_0)
  have 2: "js_div (Fin 1) (Fin 145) = Fin (496948924399503 / 2 ^ 56)"
    by (simp add: js_sub_def round64_eval [where k = "- 8"] power_int_minus rne_def Let_def inf_of_def zero_of_def round64_0)
  have 3: "js_mul (Fin (496948924399503 / 2 ^ 56)) (Fin 100) = Fin (1552965388748447 / 2 ^ 51)"
    by (simp add: js_sub_def round64_eval [where k = "- 1"] power_int_minus rne_def Let_def inf_of_def zero_of_def round64_0)
  have 4: "toFixed 2 (Fin (1552965388748447 / 2 ^ 51)) = Fin (1553741871442821 / 2 ^ 51)"
    by (simp add: fixed_def round64_eval [where k = "- 1"] power_int_minus rne_def Let_def inf_of_def zero_of_def round64_0)
  show ?thesis unfolding percentReturn_def 1 2 3 4 ..
qed

lemma ret_181_180: "percentReturn (Fin 181) (Fin 180) = Fin (- (2476979795053773 / 2 ^ 52))"
proof -
  have 1: "js_sub (Fin 180) (Fin 181) = Fin (- 1)"
    by (simp add: js_sub_def round64_eval [where k = "0"] power_int_minus rne_def Let_def inf_of_def zero_of_def round64_0)
  have 2: "js_div (Fin (- 1)) (Fin 181) = Fin (- (398108254353193 / 2 ^ 56))"
    by (simp add: js_sub_def round64_eval [where k = "- 8"] power_int_minus rne_def Let_def inf_of_def zero_of_def round64_0)
  have 3: "js_mul (Fin (- (398108254353193 / 2 ^ 56))) (Fin 100) = Fin (- (38877759214179 / 2 ^ 46))"
    by (simp add: js_sub_def round64_eval [where k = "- 1"] power_int_minus rne_def Let_def inf_of_def zero_of_def round64_0)
  have 4: "toFixed 2 (Fin (- (38877759214179 / 2 ^ 46))) = Fin (- (2476979795053773 / 2 ^ 52))"
    by (simp add: fixed_def round64_eval [where k = "- 1"] power_int_minus rne_def Let_def inf_of_def zero_of_def round64_0)
  show ?thesis unfolding percentReturn_def 1 2 3 4 ..
qed

lemma ret_197_193: "percentReturn (Fin 197) (Fin 193) = Fin (- (4571153621781053 / 2 ^ 51))"
proof -
  have 1: "js_sub (Fin 193) (Fin 197) = Fin (- 4)"
    by (simp add: js_sub_def round64_eval [where k = "2"] power_int_minus rne_def Let_def inf_of_def zero_of_def round64_0)
  have 2: "js_div (Fin (- 4)) (Fin 197) = Fin (- (2926196712200119 / 2 ^ 57))"
    by (simp add: js_sub_def round64_eval [where k = "- 6"] power_int_minus rne_def Let_def inf_of_def zero_of_def round64_0)
  have 3: "js_mul (Fin (- (2926196712200119 / 2 ^ 57))) (Fin 100) = Fin (- (2286091181406343 / 2 ^ 50))"
    by (simp add: js_sub_def round64_eval [where k = "1"] power_int_minus rne_def Let_def inf_of_def zero_of_def round64_0)
  have 4: "toFixed 2 (Fin (- (2286091181406343 / 2 ^ 50))) = Fin (- (4571153621781053 / 2 ^ 51))"
    by (simp add: fixed_def round64_eval [where k = "1"] power_int_minus rne_def Let_def inf_of_def zero_of_def round64_0)
  show ?thesis unfolding percentReturn_def 1 2 3 4 ..
qed

lemma ret_100_105: "percentReturn (Fin 100) (Fin 105) = Fin 5"
proof -
  have 1: "js_sub (Fin 105) (Fin 100) = Fin 5"
    by (simp add: js_sub_def round64_eval [where k = "2"] power_int_minus rne_def Let_def inf_of_def zero_of_def round64_0)
  have 2: "js_div (Fin 5) (Fin 100) = Fin (3602879701896397 / 2 ^ 56)"
    by (simp add: js_sub_def round64_eval [where k = "- 5"] power_int_minus rne_def Let_def inf_of_def zero_of_def round64_0)
  have 3: "js_mul (Fin (3602879701896397 / 2 ^ 56)) (Fin 100) = Fin 5"
    by (simp add: js_sub_def round64_eval [where k = "2"] power_int_minus rne_def Let_def inf_of_def zero_of_def round64_0)
  have 4: "toFixed 2 (Fin 5) = Fin 5"
    by (simp add: fixed_def round64_eval [where k = "2"] power_int_minus rne_def Let_def inf_of_def zero_of_def round64_0)
  show ?thesis unfolding percentReturn_def 1 2 3 4 ..
qed

lemma ret_100_95: "percentReturn (Fin 100) (Fin 95) = Fin (- 5)"
proof -
  have 1: "js_sub (Fin 95) (Fin 100) = Fin (- 5)"
    by (simp add: js_sub_def round64_eval [where k = "2"] power_int_minus rne_def Let_def inf_of_def zero_of_def round64_0)
  have 2: "js_div (Fin (- 5)) (Fin 100) = Fin (- (3602879701896397 / 2 ^ 56))"
    by (simp add: js_sub_def round64_eval [where k = "- 5"] power_int_minus rne_def Let_def inf_of_def zero_of_def round64_0)
  have 3: "js_mul (Fin (- (3602879701896397 / 2 ^ 56))) (Fin 100) = Fin (- 5)"
    by (simp add: js_sub_def round64_eval [where k = "2"] power_int_minus rne_def Let_def inf_of_def zero_of_def round64_0)
  have 4: "toFixed 2 (Fin (- 5)) = Fin (- 5)"
    by (simp add: fixed_def round64_eval [where k = "2"] power_int_minus rne_def Let_def inf_of_def zero_of_def round64_0)
  show ?thesis unfolding percentReturn_def 1 2 3 4 ..
qed

lemma ret_100_100: "percentReturn (Fin 100) (Fin 100) = Fin 0"
proof -
  have 1: "js_sub (Fin 100) (Fin 100) = Fin 0"
    by (simp add: js_sub_def  power_int_minus rne_def Let_def inf_of_def zero_of_def round64_0)
  have 2: "js_div (Fin 0) (Fin 100) = Fin 0"
    by (simp add: js_sub_def  power_int_minus rne_def Let_def inf_of_def zero_of_def round64_0)
  have 3: "js_mul (Fin 0) (Fin 100) = Fin 0"
    by (simp add: js_sub_def  power_int_minus rne_def Let_def inf_of_def zero_of_def round64_0)
  have 4: "toFixed 2 (Fin 0) = Fin 0"
    by (simp add: fixed_def  power_int_minus rne_def Let_def inf_of_def zero_of_def round64_0)
  show ?thesis unfolding percentReturn_def 1 2 3 4 ..
qed

lemma ret_160_183: "percentReturn (Fin 160) (Fin 183) = Fin (8089590830664253 / 2 ^ 49)"
proof -
  have 1: "js_sub (Fin 183) (Fin 160) = Fin 23"
    by (simp add: js_sub_def round64_eval [where k = "4"] power_int_minus rne_def Let_def inf_of_def zero_of_def round64_0)
  have 2: "js_div (Fin 23) (Fin 160) = Fin (2589569785738035 / 2 ^ 54)"
    by (simp add: js_sub_def round64_eval [where k = "- 3"] power_int_minus rne_def Let_def inf_of_def zero_of_def round64_0)
  have 3: "js_mul (Fin (2589569785738035 / 2 ^ 54)) (Fin 100) = Fin (8092405580431359 / 2 ^ 49)"
    by (simp add: js_sub_def round64_eval [where k = "3"] power_int_minus rne_def Let_def inf_of_def zero_of_def round64_0)
  have 4: "toFixed 2 (Fin (8092405580431359 / 2 ^ 49)) = Fin (8089590830664253 / 2 ^ 49)"
    by (simp add: fixed_def round64_eval [where k = "3"] power_int_minus rne_def Let_def inf_of_def zero_of_def round64_0)
  show ?thesis unfolding percentReturn_def 1 2 3 4 ..
qed



section \<open>Fetching one price\<close>

text \<open>\<^verbatim>\<open>fetchOHLC\<close> on a payload that has both arrays.\<close>

lemma fetchOHLC_payload:
  assumes "p date = Response status (Json (Some result))" and "ok status"
    and "timestamp result = Some ts" and "close result = Some closes"
  shows "fetchOHLC p date offset =
     (case findIndex date ts 0 of
        Inl e \<Rightarrow> Inl e
      | Inr idx \<Rightarrow>
          if idx < 0 \<or> idx + offset < 0 \<or> int (length closes) \<le> idx + offset
          then Inl OffsetOutsideRange
          else (case closes ! nat (idx + offset) of
                  None \<Rightarrow> Inl ClosePriceMissing
                | Some price \<Rightarrow> Inr price))"
  using assms by (simp add: fetchOHLC_def Let_def split: sum.splits)

text \<open>
  What \<^verbatim>\<open>findIndex\<close> returns: \<open>-1\<close> or a position of the list; a position it returns
  holds the first timestamp whose UTC calendar day is the date; and it returns \<open>-1\<close>
  exactly when every timestamp has a calendar day and none is the date.
\<close>

lemma findIndex_bounds:
  "findIndex date ts i = Inr k \<Longrightarrow> k = - 1 \<or> (int i \<le> k \<and> k < int i + int (length ts))"
proof (induction ts arbitrary: i)
  case Nil
  then show ?case by simp
next
  case (Cons t ts)
  show ?case
  proof (cases "isoDay t")
    case (Inl e)
    with Cons.prems show ?thesis by simp
  next
    case (Inr day)
    show ?thesis
    proof (cases "day = date")
      case True
      with Inr Cons.prems show ?thesis by auto
    next
      case False
      with Inr Cons.prems have "findIndex date ts (Suc i) = Inr k" by simp
      from Cons.IH [OF this] show ?thesis by auto
    qed
  qed
qed

lemma findIndex_first:
  "findIndex date ts i = Inr k \<Longrightarrow> 0 \<le> k \<Longrightarrow>
   isoDay (ts ! (nat k - i)) = Inr date \<and>
   (\<forall>j < nat k - i. \<exists>day. isoDay (ts ! j) = Inr day \<and> day \<noteq> date)"
proof (induction ts arbitrary: i)
  case Nil
  then show ?case by simp
next
  case (Cons t ts)
  show ?case
  proof (cases "isoDay t")
    case (Inl e)
    with Cons.prems show ?thesis by simp
  next
    case (Inr day)
    show ?thesis
    proof (cases "day = date")
      case True
      with Inr Cons.prems show ?thesis by auto
    next
      case False
      with Inr Cons.prems have rec: "findIndex date ts (Suc i) = Inr k" by simp
      from findIndex_bounds [OF rec] Cons.prems(2) have lt: "int (Suc i) \<le> k" by auto
      then have idx: "nat k - i = Suc (nat k - Suc i)" by linarith
      from Cons.IH [OF rec Cons.prems(2)] Inr False show ?thesis
        by (auto simp: idx less_Suc_eq_0_disj)
    qed
  qed
qed

lemma findIndex_none:
  "findIndex date ts i = Inr (- 1) \<longleftrightarrow> (\<forall>t \<in> set ts. \<exists>day. isoDay t = Inr day \<and> day \<noteq> date)"
proof (induction ts arbitrary: i)
  case Nil
  then show ?case by simp
next
  case (Cons t ts)
  show ?case
  proof (cases "isoDay t")
    case (Inl e)
    then show ?thesis by simp
  next
    case (Inr day)
    with Cons.IH [of "Suc i"] show ?thesis by auto
  qed
qed

text \<open>Only the calendar day of a timestamp counts, not the instant within the day.\<close>

lemma same_day:
  assumes "t div 86400 = u div 86400" and "\<bar>t\<bar> \<le> 8640000000000" and "\<bar>u\<bar> \<le> 8640000000000"
  shows "isoDay t = isoDay u"
proof -
  have d: "(v * 1000) div 86400000 = v div 86400" for v :: int
  proof -
    have "(v * 1000) div 86400000 = (1000 * v) div (1000 * 86400)" by (simp add: mult.commute)
    also have "\<dots> = v div 86400" by (rule div_mult_mult1) simp
    finally show ?thesis .
  qed
  have "\<not> 8640000000000000 < \<bar>t * 1000\<bar>" "\<not> 8640000000000000 < \<bar>u * 1000\<bar>"
    using assms(2,3) by linarith+
  then show ?thesis
    unfolding isoDay_def Let_def d assms(1) by (simp only: if_False)
qed

text \<open>The calendar days of the sample sessions.\<close>

lemma day_20190531: "isoDay 1559309400 = Inr ''2019-05-31''" by code_simp
lemma day_20190603: "isoDay 1559568600 = Inr ''2019-06-03''" by code_simp
lemma day_20200619: "isoDay 1592573400 = Inr ''2020-06-19''" by code_simp
lemma day_20200622: "isoDay 1592832600 = Inr ''2020-06-22''" by code_simp
lemma day_20210604: "isoDay 1622813400 = Inr ''2021-06-04''" by code_simp
lemma day_20210607: "isoDay 1623072600 = Inr ''2021-06-07''" by code_simp
lemma day_20220603: "isoDay 1654263000 = Inr ''2022-06-03''" by code_simp
lemma day_20220606: "isoDay 1654522200 = Inr ''2022-06-06''" by code_simp
lemma day_20230602: "isoDay 1685712600 = Inr ''2023-06-02''" by code_simp
lemma day_20230605: "isoDay 1685971800 = Inr ''2023-06-05''" by code_simp
lemma day_20240607: "isoDay 1717767000 = Inr ''2024-06-07''" by code_simp
lemma day_20240610: "isoDay 1718026200 = Inr ''2024-06-10''" by code_simp

lemmas days = day_20190531 day_20190603 day_20200619 day_20200622 day_20210604 day_20210607
  day_20220603 day_20220606 day_20230602 day_20230605 day_20240607 day_20240610

lemma findIndex_20190603: "findIndex ''2019-06-03'' [1559309400, 1559568600] 0 = Inr 1"
  by (simp add: days)

text \<open>
  Claim C2. For every price series and every anchor index found for the date, the price
  is read at exactly \<open>anchorIndex + offset\<close> when that index lies in
  \<open>[0, length)\<close> of the closes, and otherwise the fetch throws "Offset outside range";
  the index is never clamped into the series.
\<close>

theorem C2_offset:
  assumes "p date = Response status (Json (Some result))" and "ok status"
    and "timestamp result = Some ts" and "close result = Some closes"
    and "findIndex date ts 0 = Inr idx" and "0 \<le> idx"
  shows "(0 \<le> idx + offset \<and> idx + offset < int (length closes) \<longrightarrow>
            fetchOHLC p date offset =
              (case closes ! nat (idx + offset) of
                 None \<Rightarrow> Inl ClosePriceMissing
               | Some price \<Rightarrow> Inr price)) \<and>
         (\<not> (0 \<le> idx + offset \<and> idx + offset < int (length closes)) \<longrightarrow>
            fetchOHLC p date offset = Inl OffsetOutsideRange)"
  using assms(5,6) by (auto simp: fetchOHLC_payload [where p = p and date = date, OF assms(1-4)])

text \<open>In the scenario the anchor of 2019-06-03 is index 1 of a series of length 2.\<close>

theorem C2_offset_witness:
  "fetchOHLC scenario ''2019-06-03'' (- 1) = Inr (Fin 100) \<and>
   fetchOHLC scenario ''2019-06-03'' 0 = Inr (Fin 102) \<and>
   fetchOHLC scenario ''2019-06-03'' 1 = Inl OffsetOutsideRange \<and>
   fetchOHLC scenario ''2019-06-03'' (- 2) = Inl OffsetOutsideRange"
proof -
  let ?result = "\<lparr>timestamp = Some [1559309400, 1559568600],
                   close = Some [Some (Fin 100), Some (Fin 102)]\<rparr>"
  have p: "scenario ''2019-06-03'' = Response 200 (Json (Some ?result))"
    by (simp add: scenario_def two_sessions_def)
  have s: "ok 200" by (simp add: ok_def)
  have t: "timestamp ?result = Some [1559309400, 1559568600]" by simp
  have c: "close ?result = Some [Some (Fin 100), Some (Fin 102)]" by simp
  have i: "(0::int) \<le> 1" by simp
  note inst = C2_offset [where p = scenario and date = "''2019-06-03''", OF p s t c findIndex_20190603 i]
  show ?thesis using inst [of "- 1"] inst [of 0] inst [of 1] inst [of "- 2"] by simp
qed

text \<open>
  Claim C3. A date that no session of the series falls on should raise an error of its
  own. Here 2019-06-02, a Sunday, is asked of a series that holds 2019-05-31 and
  2019-06-03: \<^verbatim>\<open>fetchOHLC\<close> throws "Offset outside range", the very error of an offset
  that leaves the series, and the run shows that message and no results. The earlier
  version of the function tells the two apart.
\<close>

theorem C3_date_not_found:
  "fetchOHLC one_series ''2019-06-02'' 0 = Inl OffsetOutsideRange \<and>
   fetchOHLC one_series ''2019-06-03'' 5 = Inl OffsetOutsideRange \<and>
   error (runBacktestOn one_series [\<lparr>ev_year = 2019, ev_date = ''2019-06-02''\<rparr>] initial)
     = Some ''Offset outside range'' \<and>
   results (runBacktestOn one_series [\<lparr>ev_year = 2019, ev_date = ''2019-06-02''\<rparr>] initial)
     = None \<and>
   fetchOHLC_v2 one_series ''2019-06-02'' 0 = Inl (TargetDateNotFound ''2019-06-02'') \<and>
   fetchOHLC_v2 one_series ''2019-06-03'' 5 = Inl OffsetOutsideWindow"
proof -
  have a: "fetchOHLC one_series ''2019-06-02'' off = Inl OffsetOutsideRange" for off
    by (simp add: fetchOHLC_def one_series_def two_sessions_def ok_def days)
  have b: "fetchOHLC one_series ''2019-06-03'' 5 = Inl OffsetOutsideRange"
    by (simp add: fetchOHLC_def one_series_def two_sessions_def ok_def days)
  have c: "fetchOHLC_v2 one_series ''2019-06-02'' 0 = Inl (TargetDateNotFound ''2019-06-02'')"
    by (simp add: fetchOHLC_v2_def one_series_def two_sessions_def ok_def days)
  have d: "fetchOHLC_v2 one_series ''2019-06-03'' 5 = Inl OffsetOutsideWindow"
    by (simp add: fetchOHLC_v2_def one_series_def two_sessions_def ok_def days)
  show ?thesis
    by (simp add: a b c d runBacktestOn_def initial_def)
qed

section \<open>The loop over the events\<close>

text \<open>
  The loop returns rows exactly when both prices of every event are fetched, and then
  it has pushed the row of each event, in the order of the events.
\<close>

lemma backtestLoop_success:
  "backtestLoop p b s evs rows = Inr out \<longleftrightarrow>
   (\<forall>ev \<in> set evs. resolved p b s ev) \<and> out = rows @ map (observation p b s) evs"
proof (induction evs arbitrary: rows)
  case Nil
  then show ?case by auto
next
  case (Cons ev evs)
  show ?case
  proof (cases "fetchOHLC p (ev_date ev) b")
    case (Inl e)
    then show ?thesis by (simp add: resolved_def)
  next
    case buy: (Inr buyP)
    show ?thesis
    proof (cases "fetchOHLC p (ev_date ev) s")
      case (Inl e)
      with buy show ?thesis by (simp add: resolved_def)
    next
      case sell: (Inr sellP)
      have "resolved p b s ev" using buy sell by (simp add: resolved_def)
      moreover have "observation p b s ev =
          \<lparr>year = Year (ev_year ev), ret = percentReturn buyP sellP\<rparr>"
        using buy sell by (simp add: observation_def)
      ultimately show ?thesis using buy sell Cons.IH by simp
    qed
  qed
qed

text \<open>
  The first event that raises ends the loop with its exception, whatever events follow.
\<close>

lemma backtestLoop_failure:
  "(\<forall>ev' \<in> set pre. resolved p b s ev') \<Longrightarrow> raises p b s ev e \<Longrightarrow>
   backtestLoop p b s (pre @ ev # post) rows = Inl e"
proof (induction pre arbitrary: rows)
  case Nil
  then show ?case by (auto simp: raises_def split: sum.splits)
next
  case (Cons a pre)
  then show ?case by (auto simp: resolved_def split: sum.splits)
qed

text \<open>The loop fails exactly when some event is not resolved.\<close>

lemma backtestLoop_fails:
  "(\<exists>e. backtestLoop p b s evs rows = Inl e) \<longleftrightarrow> (\<exists>ev \<in> set evs. \<not> resolved p b s ev)"
proof -
  have "(\<exists>e. backtestLoop p b s evs rows = Inl e) \<longleftrightarrow> \<not> (\<exists>out. backtestLoop p b s evs rows = Inr out)"
    by (cases "backtestLoop p b s evs rows") auto
  then show ?thesis by (simp add: backtestLoop_success)
qed

text \<open>A fetch depends on the provider's answer for its date only.\<close>

lemma fetchOHLC_cong: "p date = p' date \<Longrightarrow> fetchOHLC p date offset = fetchOHLC p' date offset"
  by (simp add: fetchOHLC_def)

lemma backtestLoop_cong:
  "(\<forall>ev \<in> set evs. p (ev_date ev) = p' (ev_date ev)) \<Longrightarrow>
   backtestLoop p b s evs rows = backtestLoop p' b s evs rows"
proof (induction evs arbitrary: rows)
  case Nil
  show ?case by simp
next
  case (Cons ev evs)
  from Cons.prems have here: "p (ev_date ev) = p' (ev_date ev)"
    and later: "\<forall>ev \<in> set evs. p (ev_date ev) = p' (ev_date ev)" by simp_all
  have fb: "fetchOHLC p (ev_date ev) b = fetchOHLC p' (ev_date ev) b"
    and fs: "fetchOHLC p (ev_date ev) s = fetchOHLC p' (ev_date ev) s"
    using here by (rule fetchOHLC_cong)+
  show ?case
    unfolding backtestLoop.simps fb fs Cons.IH [OF later] ..
qed

section \<open>A whole run\<close>

text \<open>The state after a run that succeeds, and after one that fails.\<close>

lemma runBacktestOn_success:
  "backtestLoop p (val (buy st)) (val (sell st)) events [] = Inr rows \<Longrightarrow>
   runBacktestOn p events st = st\<lparr>results := Some (summaryRows rows), loading := False, error := None\<rparr>"
  by (simp add: runBacktestOn_def)

lemma runBacktestOn_failure:
  "backtestLoop p (val (buy st)) (val (sell st)) events [] = Inl e \<Longrightarrow>
   runBacktestOn p events st = st\<lparr>loading := False, error := Some (message e)\<rparr>"
  by (simp add: runBacktestOn_def)

section \<open>The sample data, evaluated\<close>

lemma scenario_2019: "fetchOHLC scenario ''2019-06-03'' (- 1) = Inr (Fin 100)"
  "fetchOHLC scenario ''2019-06-03'' 0 = Inr (Fin 102)"
  by (simp_all add: fetchOHLC_def scenario_def two_sessions_def ok_def days)

lemma scenario_2020: "fetchOHLC scenario ''2020-06-22'' (- 1) = Inr (Fin 200)"
  "fetchOHLC scenario ''2020-06-22'' 0 = Inr (Fin 198)"
  by (simp_all add: fetchOHLC_def scenario_def two_sessions_def ok_def days)

lemma scenario_2021: "fetchOHLC scenario ''2021-06-07'' (- 1) = Inr (Fin 125)"
  "fetchOHLC scenario ''2021-06-07'' 0 = Inr (Fin 126)"
  by (simp_all add: fetchOHLC_def scenario_def two_sessions_def ok_def days)

lemma scenario_2022: "fetchOHLC scenario ''2022-06-06'' (- 1) = Inr (Fin 145)"
  "fetchOHLC scenario ''2022-06-06'' 0 = Inr (Fin 146)"
  by (simp_all add: fetchOHLC_def scenario_def two_sessions_def ok_def days)

lemma scenario_2023: "fetchOHLC scenario ''2023-06-05'' (- 1) = Inr (Fin 181)"
  "fetchOHLC scenario ''2023-06-05'' 0 = Inr (Fin 180)"
  by (simp_all add: fetchOHLC_def scenario_def two_sessions_def ok_def days)

lemma scenario_2024: "fetchOHLC scenario ''2024-06-10'' (- 1) = Inr (Fin 197)"
  "fetchOHLC scenario ''2024-06-10'' 0 = Inr (Fin 193)"
  by (simp_all add: fetchOHLC_def scenario_def two_sessions_def ok_def days)

lemma scenario_first_two:
  "backtestLoop scenario (- 1) 0 first_two [] = Inr (take 2 scenario_rows)"
  by (simp add: first_two_def wwdcDates_def scenario_rows_def scenario_2019 scenario_2020
      ret_100_102 ret_200_198)

lemma scenario_all:
  "backtestLoop scenario (- 1) 0 wwdcDates [] = Inr scenario_rows"
  by (simp add: wwdcDates_def scenario_rows_def scenario_2019 scenario_2020 scenario_2021
      scenario_2022 scenario_2023 scenario_2024 ret_100_102 ret_200_198 ret_125_126
      ret_145_146 ret_181_180 ret_197_193)

lemma js_pow_Fin: "0 < n \<Longrightarrow> js_pow (Fin a) n = round64 (a ^ n)"
  by (cases n) simp_all

lemma scenario_summary: "summaryRows (take 2 scenario_rows) = scenario_results"
proof -
  have sq: "sqrt (9 / 4) = 3 / 2" by (simp add: real_sqrt_divide)
  have m: "mean (take 2 scenario_rows) = Fin (1 / 2)"
    by (simp add: scenario_rows_def mean_def count_def round64_small)
  have s: "stdev (take 2 scenario_rows) = Fin (3 / 2)"
    by (simp add: stdev_def m)
      (simp add: scenario_rows_def count_def js_sub_def js_pow_Fin power2_eq_square sq
        round64_small)
  have w: "winRate (take 2 scenario_rows) = Fin (1 / 2)"
    by (simp add: scenario_rows_def winRate_def count_def round64_small)
  show ?thesis
    by (simp add: summaryRows_def m s w fixed_def round64_small)
      (simp add: scenario_rows_def scenario_results_def)
qed

lemma offsets_initial: "val (buy initial) = - 1" "val (sell initial) = 0"
  by (simp_all add: initial_def buyOffsets_def sellOffsets_def)

lemma null_close_2019: "fetchOHLC null_close ''2019-06-03'' (- 1) = Inr (Fin 100)"
  "fetchOHLC null_close ''2019-06-03'' 0 = Inl ClosePriceMissing"
  by (simp_all add: fetchOHLC_def null_close_def two_sessions_def ok_def days)

lemma one_series_2019: "fetchOHLC one_series ''2019-06-03'' (- 1) = Inr (Fin 100)"
  "fetchOHLC one_series ''2019-06-03'' 0 = Inr (Fin 102)"
  by (simp_all add: fetchOHLC_def one_series_def two_sessions_def ok_def days)

lemma one_series_2020: "fetchOHLC one_series ''2020-06-22'' (- 1) = Inl OffsetOutsideRange"
  by (simp add: fetchOHLC_def one_series_def two_sessions_def ok_def days)

lemma toFixed_Fin:
  "\<bar>v\<bar> < 10 ^ 21 \<Longrightarrow>
   toFixed f (Fin v) = (if v < 0 \<and> fixed f v = 0 then NZero else round64 (fixed f v))"
  by simp

lemma round64_1438: "round64 (719 / 50) = Fin (8095220330198467 / 2 ^ 49)"
  by (simp add: round64_eval [where k = 3] power_int_minus rne_def Let_def inf_of_def zero_of_def)

text \<open>
  Claim C6 says that the return is the quotient \<open>(exit - entry) / entry * 100\<close> rounded
  to two decimals. From 160 to 183 the quotient is 14.375, which rounds to 14.38; the
  code divides 23 by 160 in binary64, gets 14.374999999999998 after the multiplication
  and returns 14.37, more than 0.005 below the quotient.
\<close>

theorem C6_exact_quotient:
  "percentReturn (Fin 160) (Fin 183) = Fin (8089590830664253 / 2 ^ 49) \<and>
   (183 - 160) / 160 * 100 = (115 / 8 :: real) \<and>
   fixed 2 (115 / 8) = 719 / 50 \<and>
   round64 (719 / 50) = Fin (8095220330198467 / 2 ^ 49) \<and>
   (1 / 200 :: real) < \<bar>8089590830664253 / 2 ^ 49 - 115 / 8\<bar>"
  by (simp add: ret_160_183 round64_1438 fixed_def)

text \<open>
  Claim C6, amended. For every pair of finite prices with a non-zero entry price, the
  percentage return is what \<^verbatim>\<open>toFixed(2)\<close> prints, read back as a number, for the
  binary64 value of \<open>(exit - entry) / entry * 100\<close>, each of the three operations
  rounded to the nearest binary64 number: when that value \<open>v\<close> is finite and below
  \<^verbatim>\<open>1e21\<close> in magnitude, the return is the binary64 number nearest to the multiple of
  0.01 nearest to \<open>v\<close>, at most 0.005 away from \<open>v\<close>. From 100 to 105 it is 5.00, from
  100 to 95 it is -5.00, from 100 to 100 it is 0.00.
\<close>

theorem C6_percentReturn:
  "(buyP \<noteq> 0 \<and>
    js_mul (js_div (js_sub (Fin sellP) (Fin buyP)) (Fin buyP)) (Fin 100) = Fin v \<and>
    \<bar>v\<bar> < 10 ^ 21 \<longrightarrow>
      percentReturn (Fin buyP) (Fin sellP)
        = (if v < 0 \<and> fixed 2 v = 0 then NZero else round64 (fixed 2 v)) \<and>
      rounded_to 2 v (fixed 2 v)) \<and>
   percentReturn (Fin 100) (Fin 105) = Fin 5 \<and>
   percentReturn (Fin 100) (Fin 95) = Fin (- 5) \<and>
   percentReturn (Fin 100) (Fin 100) = Fin 0"
  by (simp add: percentReturn_def fixed_rounded ret_100_105 [unfolded percentReturn_def]
      ret_100_95 [unfolded percentReturn_def] ret_100_100 [unfolded percentReturn_def])

theorem C6_percentReturn_witness:
  "(100::real) \<noteq> 0 \<and>
   js_mul (js_div (js_sub (Fin 105) (Fin 100)) (Fin 100)) (Fin 100) = Fin 5 \<and>
   \<bar>5::real\<bar> < 10 ^ 21 \<and>
   percentReturn (Fin 100) (Fin 105) = Fin 5 \<and> round64 (fixed 2 5) = Fin 5 \<and>
   rounded_to 2 5 (fixed 2 5)"
proof -
  have 1: "js_sub (Fin 105) (Fin 100) = Fin 5"
    by (simp add: js_sub_def round64_eval [where k = 2] power_int_minus rne_def Let_def
        inf_of_def zero_of_def)
  have 2: "js_div (Fin 5) (Fin 100) = Fin (3602879701896397 / 2 ^ 56)"
    by (simp add: round64_eval [where k = "- 5"] power_int_minus rne_def Let_def
        inf_of_def zero_of_def)
  have 3: "js_mul (Fin (3602879701896397 / 2 ^ 56)) (Fin 100) = Fin 5"
    by (simp add: round64_eval [where k = 2] power_int_minus rne_def Let_def
        inf_of_def zero_of_def)
  have v: "js_mul (js_div (js_sub (Fin 105) (Fin 100)) (Fin 100)) (Fin 100) = Fin 5"
    unfolding 1 2 3 ..
  have f: "fixed 2 5 = 5" by (simp add: fixed_def)
  have r: "round64 (fixed 2 5) = Fin 5"
    unfolding f
    by (simp add: round64_eval [where k = 2] power_int_minus rne_def Let_def
        inf_of_def zero_of_def)
  from C6_percentReturn [where buyP = 100 and sellP = 105 and v = 5] v r f
  show ?thesis by simp
qed

section \<open>The statistics\<close>















section \<open>Prices that are missing, zero or negative\<close>

text \<open>
  Claim C4 says that a price that is not positive is refused. It is not: a close of zero
  is returned as the entry price, the run succeeds and the return is Infinity.
\<close>

theorem C4_zero_price:
  "fetchOHLC zero_close ''2019-06-03'' (- 1) = Inr (Fin 0) \<and>
   backtestLoop zero_close (- 1) 0 first_one [] = Inr [\<lparr>year = Year 2019, ret = PInf\<rparr>]"
proof -
  have a: "fetchOHLC zero_close ''2019-06-03'' (- 1) = Inr (Fin 0)"
    by (simp add: fetchOHLC_def zero_close_def two_sessions_def ok_def days)
  have b: "fetchOHLC zero_close ''2019-06-03'' 0 = Inr (Fin 5)"
    by (simp add: fetchOHLC_def zero_close_def two_sessions_def ok_def days)
  have c: "percentReturn (Fin 0) (Fin 5) = PInf"
    by (simp add: percentReturn_def js_sub_def inf_of_def)
  show ?thesis by (simp add: a b c first_one_def wwdcDates_def)
qed

text \<open>With an entry price of zero, of either sign, the return is an infinity or NaN.\<close>

lemma percentReturn_zero:
  "percentReturn (Fin 0) (Fin s) = (if 0 < s then PInf else if s < 0 then NInf else NaN)"
  by (simp add: percentReturn_def js_sub_def inf_of_def)

lemma percentReturn_neg_zero: "\<not> is_finite (percentReturn NZero (Fin s))"
proof -
  have sub: "js_sub (Fin s) NZero = round64 s" by (simp add: js_sub_def)
  show ?thesis
    unfolding percentReturn_def sub
    by (cases "round64 s") (simp_all add: inf_of_def)
qed

text \<open>With a finite entry price other than zero the return is never NaN.\<close>

lemma js_div_not_NaN: "x \<noteq> NaN \<Longrightarrow> b \<noteq> 0 \<Longrightarrow> js_div x (Fin b) \<noteq> NaN"
  by (cases x) (simp_all add: zero_of_def inf_of_def round64_not_NaN)

lemma js_mul_not_NaN: "x \<noteq> NaN \<Longrightarrow> b \<noteq> 0 \<Longrightarrow> js_mul x (Fin b) \<noteq> NaN"
  by (cases x) (simp_all add: zero_of_def inf_of_def round64_not_NaN)

lemma toFixed_not_NaN: "x \<noteq> NaN \<Longrightarrow> toFixed f x \<noteq> NaN"
  by (cases x) (simp_all add: round64_not_NaN)

lemma percentReturn_not_NaN:
  assumes "b \<noteq> 0"
  shows "percentReturn (Fin b) (Fin s) \<noteq> NaN"
proof -
  have "js_sub (Fin s) (Fin b) = round64 (s - b)" using assms by (simp add: js_sub_def)
  then have "js_sub (Fin s) (Fin b) \<noteq> NaN" by (simp add: round64_not_NaN)
  then have "js_div (js_sub (Fin s) (Fin b)) (Fin b) \<noteq> NaN"
    using assms by (rule js_div_not_NaN)
  then have "js_mul (js_div (js_sub (Fin s) (Fin b)) (Fin b)) (Fin 100) \<noteq> NaN"
    by (rule js_mul_not_NaN) simp
  then show ?thesis unfolding percentReturn_def by (rule toFixed_not_NaN)
qed

text \<open>
  Claim C4, amended. A resolved price that is \<^verbatim>\<open>null\<close> makes \<^verbatim>\<open>fetchOHLC\<close> throw
  "Close price missing", for the entry and for the exit price of any event: the run
  then fails without rows, with that error when no earlier fetch failed. A price that is
  a number is never refused, whatever its sign: it is returned as the price. With an
  entry price of zero the return is Infinity, -Infinity or NaN; with a finite entry
  price other than zero and a finite exit price it is never NaN.
\<close>

theorem C4_missing_price:
  "(p date = Response status (Json (Some result)) \<and> ok status \<and>
    timestamp result = Some ts \<and> close result = Some closes \<and>
    findIndex date ts 0 = Inr idx \<and> 0 \<le> idx \<and>
    0 \<le> idx + offset \<and> idx + offset < int (length closes) \<longrightarrow>
      (closes ! nat (idx + offset) = None \<longrightarrow> fetchOHLC p date offset = Inl ClosePriceMissing) \<and>
      (closes ! nat (idx + offset) = Some price \<longrightarrow> fetchOHLC p date offset = Inr price)) \<and>
   ((\<forall>ev' \<in> set pre. resolved p b s ev') \<and> raises p b s ev ClosePriceMissing \<longrightarrow>
      backtestLoop p b s (pre @ ev # post) [] = Inl ClosePriceMissing) \<and>
   ((\<exists>ev \<in> set events. fetchOHLC p (ev_date ev) b = Inl ClosePriceMissing \<or>
                        fetchOHLC p (ev_date ev) s = Inl ClosePriceMissing) \<longrightarrow>
      (\<exists>e. backtestLoop p b s events [] = Inl e)) \<and>
   \<not> is_finite (percentReturn (Fin 0) (Fin sellP)) \<and>
   \<not> is_finite (percentReturn NZero (Fin sellP)) \<and>
   (buyP \<noteq> 0 \<longrightarrow> percentReturn (Fin buyP) (Fin sellP) \<noteq> NaN)"
proof -
  have fetch: "fetchOHLC p date offset =
         (case closes ! nat (idx + offset) of None \<Rightarrow> Inl ClosePriceMissing | Some x \<Rightarrow> Inr x)"
    if "p date = Response status (Json (Some result))" "ok status"
       "timestamp result = Some ts" "close result = Some closes"
       "findIndex date ts 0 = Inr idx" "0 \<le> idx"
       "0 \<le> idx + offset" "idx + offset < int (length closes)"
    using that(5-8) by (simp add: fetchOHLC_payload [where p = p and date = date, OF that(1-4)])
  have first: "backtestLoop p b s (pre @ ev # post) [] = Inl ClosePriceMissing"
    if "\<forall>ev' \<in> set pre. resolved p b s ev'" "raises p b s ev ClosePriceMissing"
    using that by (rule backtestLoop_failure)
  have some: "\<exists>e. backtestLoop p b s events [] = Inl e"
    if "\<exists>ev \<in> set events. fetchOHLC p (ev_date ev) b = Inl ClosePriceMissing \<or>
                        fetchOHLC p (ev_date ev) s = Inl ClosePriceMissing"
  proof -
    from that obtain ev where ev: "ev \<in> set events"
      and d: "fetchOHLC p (ev_date ev) b = Inl ClosePriceMissing \<or>
              fetchOHLC p (ev_date ev) s = Inl ClosePriceMissing" by blast
    from d have "\<not> resolved p b s ev" by (auto simp: resolved_def)
    with ev have "\<exists>ev \<in> set events. \<not> resolved p b s ev" by blast
    then show ?thesis by (simp add: backtestLoop_fails)
  qed
  have zero: "\<not> is_finite (percentReturn (Fin 0) (Fin sellP))"
    by (simp add: percentReturn_zero)
  from fetch first some zero percentReturn_neg_zero [of sellP]
    percentReturn_not_NaN [of buyP sellP]
  show ?thesis by (auto split: option.splits)
qed

theorem C4_missing_price_witness:
  "fetchOHLC null_close ''2019-06-03'' 0 = Inl ClosePriceMissing \<and>
   fetchOHLC null_close ''2019-06-03'' (- 1) = Inr (Fin 100) \<and>
   backtestLoop null_close (- 1) 0 first_one [] = Inl ClosePriceMissing \<and>
   backtestLoop null_close 0 5 first_one [] = Inl ClosePriceMissing \<and>
   (100::real) \<noteq> 0 \<and> percentReturn (Fin 100) (Fin 102) = Fin 2"
proof -
  let ?closes = "[Some (Fin 100), None]"
  let ?result = "\<lparr>timestamp = Some [1559309400, 1559568600], close = Some ?closes\<rparr>"
  let ?ev = "\<lparr>ev_year = 2019, ev_date = ''2019-06-03''\<rparr>"
  have p: "null_close ''2019-06-03'' = Response 200 (Json (Some ?result))"
    by (simp add: null_close_def two_sessions_def)
  have s: "ok 200" by (simp add: ok_def)
  have 1: "fetchOHLC null_close ''2019-06-03'' 0 = Inl ClosePriceMissing"
    using C4_missing_price [where p = null_close and date = "''2019-06-03''" and status = 200
        and result = ?result and ts = "[1559309400, 1559568600]" and closes = ?closes
        and idx = 1 and offset = 0]
    by (simp add: p s findIndex_20190603 del: findIndex.simps)
  have 2: "fetchOHLC null_close ''2019-06-03'' (- 1) = Inr (Fin 100)"
    using C4_missing_price [where p = null_close and date = "''2019-06-03''" and status = 200
        and result = ?result and ts = "[1559309400, 1559568600]" and closes = ?closes
        and idx = 1 and offset = "- 1" and price = "Fin 100"]
    by (simp add: p s findIndex_20190603 del: findIndex.simps)
  have 3: "backtestLoop null_close (- 1) 0 first_one [] = Inl ClosePriceMissing"
    using C4_missing_price [where p = null_close and b = "- 1" and s = 0 and pre = "[]"
        and ev = ?ev and post = "[]"] 1 2
    by (simp add: first_one_def wwdcDates_def raises_def)
  have "\<exists>e. backtestLoop null_close 0 5 first_one [] = Inl e"
    using C4_missing_price [where p = null_close and b = 0 and s = 5 and events = first_one] 1
    by (simp add: first_one_def wwdcDates_def)
  then have 4: "backtestLoop null_close 0 5 first_one [] = Inl ClosePriceMissing"
    using 1 by (simp add: first_one_def wwdcDates_def)
  have 5: "percentReturn (Fin 100) (Fin 102) \<noteq> NaN"
    using C4_missing_price [where buyP = 100 and sellP = 102] by simp
  from 1 2 3 4 5 show ?thesis by (simp add: ret_100_102)
qed

section \<open>Properties of a run\<close>

text \<open>
  Claim C5. For every list of events: if the processing of any event fails, whatever the
  exception, the run fails as a whole with a single error and stores no list of
  observations, partial or other (the stored results are those from before); the
  failure is that of the first event that fails, and the events after it play no part.
  When the run returns rows, the entry and the exit price of every event were both
  resolved, and each row is the observation of its event.
\<close>

theorem C5_abort:
  "((\<exists>ev \<in> set events. \<not> resolved p (val (buy st)) (val (sell st)) ev) \<longrightarrow>
      (\<exists>e. backtestLoop p (val (buy st)) (val (sell st)) events [] = Inl e \<and>
           results (runBacktestOn p events st) = results st \<and>
           error (runBacktestOn p events st) = Some (message e))) \<and>
   ((\<forall>ev' \<in> set pre. resolved p b s ev') \<and> raises p b s ev e \<longrightarrow>
      backtestLoop p b s (pre @ ev # post) [] = Inl e) \<and>
   (backtestLoop p b s events [] = Inr rows \<longrightarrow>
      (\<forall>ev \<in> set events. resolved p b s ev) \<and> rows = map (observation p b s) events)"
proof -
  have "\<exists>e. backtestLoop p (val (buy st)) (val (sell st)) events [] = Inl e \<and>
           results (runBacktestOn p events st) = results st \<and>
           error (runBacktestOn p events st) = Some (message e)"
    if "\<exists>ev \<in> set events. \<not> resolved p (val (buy st)) (val (sell st)) ev"
  proof -
    from that obtain e where e: "backtestLoop p (val (buy st)) (val (sell st)) events [] = Inl e"
      using backtestLoop_fails [of p "val (buy st)" "val (sell st)" events "[]"] by blast
    then show ?thesis by (simp add: runBacktestOn_failure [OF e])
  qed
  moreover have "backtestLoop p b s (pre @ ev # post) [] = Inl e"
    if "\<forall>ev' \<in> set pre. resolved p b s ev'" "raises p b s ev e"
    using that by (rule backtestLoop_failure)
  moreover have "(\<forall>ev \<in> set events. resolved p b s ev) \<and> rows = map (observation p b s) events"
    if "backtestLoop p b s events [] = Inr rows"
    using that by (simp add: backtestLoop_success)
  ultimately show ?thesis by blast
qed

text \<open>
  A failing event (the close of the exit session is \<^verbatim>\<open>null\<close>), a failure at the second of
  six events, and a run in which every event is resolved.
\<close>

theorem C5_abort_witness:
  "backtestLoop null_close (- 1) 0 first_one [] = Inl ClosePriceMissing \<and>
   results (runBacktestOn null_close first_one stale) = Some [] \<and>
   error (runBacktestOn null_close first_one stale) = Some ''Close price missing'' \<and>
   backtestLoop one_series (- 1) 0 wwdcDates [] = Inl OffsetOutsideRange \<and>
   backtestLoop scenario (- 1) 0 first_two [] = Inr (take 2 scenario_rows) \<and>
   take 2 scenario_rows = map (observation scenario (- 1) 0) first_two"
proof -
  have st: "val (buy stale) = - 1" "val (sell stale) = 0" "results stale = Some []"
    by (simp_all add: stale_def offsets_initial)
  have 1: "backtestLoop null_close (- 1) 0 first_one [] = Inl ClosePriceMissing \<and>
      results (runBacktestOn null_close first_one stale) = Some [] \<and>
      error (runBacktestOn null_close first_one stale) = Some ''Close price missing''"
    using C5_abort [where p = null_close and events = first_one and st = stale]
    by (simp add: st first_one_def wwdcDates_def resolved_def null_close_2019)
  have 2: "backtestLoop one_series (- 1) 0 wwdcDates [] = Inl OffsetOutsideRange"
    using C5_abort [where p = one_series and b = "- 1" and s = 0 and pre = first_one
        and ev = "\<lparr>ev_year = 2020, ev_date = ''2020-06-22''\<rparr>" and post = "drop 2 wwdcDates"
        and e = OffsetOutsideRange]
    by (simp add: first_one_def wwdcDates_def resolved_def raises_def one_series_2019
        one_series_2020)
  have 3: "take 2 scenario_rows = map (observation scenario (- 1) 0) first_two"
    using C5_abort [where p = scenario and b = "- 1" and s = 0 and events = first_two
        and rows = "take 2 scenario_rows"] scenario_first_two
    by simp
  from 1 2 3 scenario_first_two show ?thesis by simp
qed

text \<open>
  Claim C7. For every successful run the stored sequence consists of one row per event,
  in the order of the events and labelled with their years, followed by exactly three
  aggregate rows in the order Avg, StDev, WinRate.
\<close>

theorem C7_order:
  "backtestLoop p (val (buy st)) (val (sell st)) events [] = Inr rows \<longrightarrow>
     results (runBacktestOn p events st) = Some (summaryRows rows) \<and>
     length rows = length events \<and>
     map year rows = map (\<lambda>ev. Year (ev_year ev)) events \<and>
     take (length events) (summaryRows rows) = rows \<and>
     map year (drop (length events) (summaryRows rows))
       = [Tag ''Avg'', Tag ''StDev'', Tag ''WinRate'']"
proof
  assume run: "backtestLoop p (val (buy st)) (val (sell st)) events [] = Inr rows"
  then have rows: "rows = map (observation p (val (buy st)) (val (sell st))) events"
    by (simp add: backtestLoop_success)
  have len: "length rows = length events" by (simp add: rows)
  have years: "map year rows = map (\<lambda>ev. Year (ev_year ev)) events"
    by (simp add: rows observation_def)
  have "take (length events) (summaryRows rows) = rows"
    using len by (simp add: summaryRows_def)
  moreover have "map year (drop (length events) (summaryRows rows))
       = [Tag ''Avg'', Tag ''StDev'', Tag ''WinRate'']"
    using len by (simp add: summaryRows_def)
  ultimately show "results (runBacktestOn p events st) = Some (summaryRows rows) \<and>
     length rows = length events \<and>
     map year rows = map (\<lambda>ev. Year (ev_year ev)) events \<and>
     take (length events) (summaryRows rows) = rows \<and>
     map year (drop (length events) (summaryRows rows))
       = [Tag ''Avg'', Tag ''StDev'', Tag ''WinRate'']"
    using len years by (simp add: runBacktestOn_success [OF run])
qed

text \<open>The end-to-end scenario of the specification.\<close>

theorem C7_order_witness:
  "backtestLoop scenario (val (buy initial)) (val (sell initial)) first_two []
     = Inr (take 2 scenario_rows) \<and>
   results (runBacktestOn scenario first_two initial) = Some scenario_results \<and>
   map year scenario_results
     = [Year 2019, Year 2020, Tag ''Avg'', Tag ''StDev'', Tag ''WinRate'']"
proof -
  have run: "backtestLoop scenario (val (buy initial)) (val (sell initial)) first_two []
     = Inr (take 2 scenario_rows)"
    by (simp add: offsets_initial scenario_first_two)
  have "results (runBacktestOn scenario first_two initial) = Some scenario_results"
    using C7_order [where p = scenario and st = initial and events = first_two
        and rows = "take 2 scenario_rows"] run
    by (simp add: scenario_summary)
  with run show ?thesis by (simp add: scenario_results_def)
qed

text \<open>
  Claim C8. The configured list has six events, and the statistics are computed only
  after the loop has pushed a row for each of them: the count they divide by is 6,
  never zero.
\<close>

theorem C8_six_events:
  "length wwdcDates = 6 \<and>
   (backtestLoop p (val (buy st)) (val (sell st)) wwdcDates [] = Inr rows \<longrightarrow>
      results (runBacktest p st) = Some (summaryRows rows) \<and>
      length rows = 6 \<and> count rows = Fin 6 \<and> count rows \<noteq> Fin 0)"
proof -
  have six: "length wwdcDates = 6" by (simp add: wwdcDates_def)
  have "results (runBacktest p st) = Some (summaryRows rows) \<and>
      length rows = 6 \<and> count rows = Fin 6 \<and> count rows \<noteq> Fin 0"
    if run: "backtestLoop p (val (buy st)) (val (sell st)) wwdcDates [] = Inr rows"
  proof -
    from run have "rows = map (observation p (val (buy st)) (val (sell st))) wwdcDates"
      by (simp add: backtestLoop_success)
    then have "length rows = 6" using six by simp
    then show ?thesis
      by (simp add: count_def runBacktest_def runBacktestOn_success [OF run])
  qed
  with six show ?thesis by blast
qed

text \<open>The run over the six keynotes of the scenario.\<close>

theorem C8_six_events_witness:
  "backtestLoop scenario (val (buy initial)) (val (sell initial)) wwdcDates []
     = Inr scenario_rows \<and>
   results (runBacktest scenario initial) = Some (summaryRows scenario_rows) \<and>
   count scenario_rows = Fin 6"
proof -
  have run: "backtestLoop scenario (val (buy initial)) (val (sell initial)) wwdcDates []
     = Inr scenario_rows"
    by (simp add: offsets_initial scenario_all)
  with C8_six_events [where p = scenario and st = initial and rows = scenario_rows]
  show ?thesis by simp
qed

text \<open>
  Claim C9. Two runs over the same events with the same entry and exit offsets, against
  providers that answer the dates of these events alike, have the same outcome: the same
  rows or the same error, hence the same message and, when the run succeeds (or the
  results stored before were the same), the same results.
\<close>

theorem C9_deterministic:
  "(\<forall>ev \<in> set events. p (ev_date ev) = p' (ev_date ev)) \<and>
   buy st = buy st' \<and> sell st = sell st' \<longrightarrow>
     backtestLoop p (val (buy st)) (val (sell st)) events []
       = backtestLoop p' (val (buy st')) (val (sell st')) events [] \<and>
     error (runBacktestOn p events st) = error (runBacktestOn p' events st') \<and>
     loading (runBacktestOn p events st) = loading (runBacktestOn p' events st') \<and>
     (results st = results st' \<or> error (runBacktestOn p events st) = None \<longrightarrow>
        results (runBacktestOn p events st) = results (runBacktestOn p' events st'))"
proof
  assume a: "(\<forall>ev \<in> set events. p (ev_date ev) = p' (ev_date ev)) \<and>
   buy st = buy st' \<and> sell st = sell st'"
  then have loop: "backtestLoop p (val (buy st)) (val (sell st)) events []
       = backtestLoop p' (val (buy st')) (val (sell st')) events []"
    using backtestLoop_cong [of events p p' "val (buy st)" "val (sell st)" "[]"] by simp
  show "backtestLoop p (val (buy st)) (val (sell st)) events []
       = backtestLoop p' (val (buy st')) (val (sell st')) events [] \<and>
     error (runBacktestOn p events st) = error (runBacktestOn p' events st') \<and>
     loading (runBacktestOn p events st) = loading (runBacktestOn p' events st') \<and>
     (results st = results st' \<or> error (runBacktestOn p events st) = None \<longrightarrow>
        results (runBacktestOn p events st) = results (runBacktestOn p' events st'))"
  proof (cases "backtestLoop p (val (buy st)) (val (sell st)) events []")
    case (Inl e)
    with loop have "backtestLoop p' (val (buy st')) (val (sell st')) events [] = Inl e" by simp
    from runBacktestOn_failure [OF Inl] runBacktestOn_failure [OF this] loop
    show ?thesis by simp
  next
    case (Inr rows)
    with loop have "backtestLoop p' (val (buy st')) (val (sell st')) events [] = Inr rows" by simp
    from runBacktestOn_success [OF Inr] runBacktestOn_success [OF this] loop
    show ?thesis by simp
  qed
qed

text \<open>
  Two providers that differ on a date no event has, and two states that differ in what
  an earlier run left behind.
\<close>

theorem C9_deterministic_witness:
  "scenario ''2019-06-03'' = scenario_offline ''2019-06-03'' \<and>
   scenario ''2020-06-22'' = scenario_offline ''2020-06-22'' \<and>
   buy initial = buy stale \<and> sell initial = sell stale \<and>
   results initial \<noteq> results stale \<and>
   results (runBacktestOn scenario first_two initial) = Some scenario_results \<and>
   results (runBacktestOn scenario_offline first_two stale) = Some scenario_results \<and>
   error (runBacktestOn scenario_offline first_two stale) = None"
proof -
  have agree: "\<forall>ev \<in> set first_two. scenario (ev_date ev) = scenario_offline (ev_date ev)"
    by (simp add: first_two_def wwdcDates_def scenario_offline_def)
  have same: "buy initial = buy stale" "sell initial = sell stale"
    by (simp_all add: stale_def)
  have differ: "results initial \<noteq> results stale"
    by (simp add: stale_def initial_def)
  have run: "backtestLoop scenario (val (buy initial)) (val (sell initial)) first_two []
     = Inr (take 2 scenario_rows)"
    by (simp add: offsets_initial scenario_first_two)
  have one: "results (runBacktestOn scenario first_two initial) = Some scenario_results"
    "error (runBacktestOn scenario first_two initial) = None"
    by (simp_all add: runBacktestOn_success [OF run] scenario_summary)
  from C9_deterministic [where p = scenario and p' = scenario_offline and events = first_two
      and st = initial and st' = stale] agree same one
  have "results (runBacktestOn scenario_offline first_two stale) = Some scenario_results"
    and "error (runBacktestOn scenario_offline first_two stale) = None"
    by simp_all
  moreover have "scenario ''2019-06-03'' = scenario_offline ''2019-06-03''"
    and "scenario ''2020-06-22'' = scenario_offline ''2020-06-22''"
    by (simp_all add: scenario_offline_def)
  ultimately show ?thesis using same differ one by simp
qed

text \<open>
  Claim C10. When a run fails, only the error message is set (and the loading flag
  reset): the results stored before are still there, so those of an earlier successful
  run stay next to the new error.
\<close>

theorem C10_error_frame:
  "backtestLoop p (val (buy st)) (val (sell st)) events [] = Inl e \<longrightarrow>
     results (runBacktestOn p events st) = results st \<and>
     error (runBacktestOn p events st) = Some (message e) \<and>
     loading (runBacktestOn p events st) = False \<and>
     buy (runBacktestOn p events st) = buy st \<and>
     sell (runBacktestOn p events st) = sell st"
  by (simp add: runBacktestOn_def)

text \<open>A successful run of the scenario, then a run that fails.\<close>

theorem C10_error_frame_witness:
  "results (runBacktestOn scenario first_two initial) = Some scenario_results \<and>
   backtestLoop null_close (val (buy (runBacktestOn scenario first_two initial)))
       (val (sell (runBacktestOn scenario first_two initial))) first_one []
     = Inl ClosePriceMissing \<and>
   results (runBacktestOn null_close first_one (runBacktestOn scenario first_two initial))
     = Some scenario_results \<and>
   error (runBacktestOn null_close first_one (runBacktestOn scenario first_two initial))
     = Some ''Close price missing''"
proof -
  let ?st = "runBacktestOn scenario first_two initial"
  have run: "backtestLoop scenario (val (buy initial)) (val (sell initial)) first_two []
     = Inr (take 2 scenario_rows)"
    by (simp add: offsets_initial scenario_first_two)
  have st: "?st = initial\<lparr>results := Some scenario_results, loading := False, error := None\<rparr>"
    by (simp add: runBacktestOn_success [OF run] scenario_summary)
  have res: "results ?st = Some scenario_results" by (simp add: st)
  have off: "val (buy ?st) = - 1" "val (sell ?st) = 0" by (simp_all add: st offsets_initial)
  have fail: "backtestLoop null_close (val (buy ?st)) (val (sell ?st)) first_one []
     = Inl ClosePriceMissing"
    unfolding off by (simp add: first_one_def wwdcDates_def null_close_2019)
  from C10_error_frame [where p = null_close and st = ?st and events = first_one
      and e = ClosePriceMissing] fail res
  show ?thesis by simp
qed


end
